theory Spec2Isabelle
  imports Main "HOL-Library.AList" "HOL-Library.Multiset"
begin

section \<open>Python values, truthiness and errors\<close>

text \<open>
  The four build options of \<^verbatim>\<open>BuildCommand\<close> are attributes that
  \<^verbatim>\<open>initialize_options\<close> sets to \<^verbatim>\<open>None\<close>. The command line stores the
  integer 1 in an option that is given, and a configuration file can store a string. The
  code only ever tests their truthiness.
\<close>

datatype pyval = PyNone | PyInt int | PyStr string

fun truthy :: "pyval \<Rightarrow> bool" where
  "truthy PyNone = False"
| "truthy (PyInt n) = (n \<noteq> 0)"
| "truthy (PyStr s) = (s \<noteq> [])"

datatype error =
    DistutilsOptionError string
  | ValueError
  | OSError
  | NameError

section \<open>String helpers of the script\<close>

text \<open>\<^verbatim>\<open>sub in s\<close> on strings: \<^verbatim>\<open>sub\<close> occurs in \<^verbatim>\<open>s\<close> as a contiguous run.\<close>

fun str_contains :: "string \<Rightarrow> string \<Rightarrow> bool" where
  "str_contains sub [] = (sub = [])"
| "str_contains sub (c # cs) = (take (length sub) (c # cs) = sub \<or> str_contains sub cs)"

text \<open>\<^verbatim>\<open>s.endswith(suf)\<close>.\<close>

definition endswith :: "string \<Rightarrow> string \<Rightarrow> bool" where
  "endswith s suf = (length suf \<le> length s \<and> drop (length s - length suf) s = suf)"

text \<open>\<^verbatim>\<open>xs.remove(x)\<close>: drops the first occurrence, \<^verbatim>\<open>ValueError\<close> when there is none.\<close>

definition list_remove :: "'a list \<Rightarrow> 'a \<Rightarrow> error + 'a list" where
  "list_remove xs x = (if x \<in> set xs then Inr (remove1 x xs) else Inl ValueError)"

section \<open>Redirecting streams: \<^verbatim>\<open>muted\<close>\<close>

text \<open>
  \<^verbatim>\<open>muted\<close> (lines 32-55) works on the descriptor table of the process: which
  open file each descriptor number refers to. A stream is represented by the number that
  its \<^verbatim>\<open>fileno()\<close> returns. The table is an association list read with
  \<open>map_of\<close>.
\<close>

type_synonym fd = nat

datatype openfile = DevNull | File nat

type_synonym fdtable = "(fd \<times> openfile) list"

text \<open>
  The operating system gives a new descriptor the lowest number that is not in use:
  \<open>lowest_unused n used\<close> is the first number from \<open>n\<close> on that is not in
  \<open>used\<close>.
\<close>

function lowest_unused :: "fd \<Rightarrow> fd list \<Rightarrow> fd" where
  "lowest_unused n used =
     (if n \<in> set used then lowest_unused (Suc n) (removeAll n used) else n)"
  by pat_completeness auto
termination
  by (relation "measure (\<lambda>(n, used). length used)") (auto simp: length_removeAll_less)

declare lowest_unused.simps [simp del]

text \<open>
  \<^verbatim>\<open>open(os.devnull, 'w')\<close>, \<^verbatim>\<open>os.dup\<close>, \<^verbatim>\<open>os.dup2\<close> and
  the close of a descriptor. Duplicating or closing a descriptor that is not open raises
  \<^verbatim>\<open>OSError\<close>; every operation returns the table it leaves.
\<close>

definition os_open_devnull :: "fdtable \<Rightarrow> fd \<times> fdtable" where
  "os_open_devnull t =
     (let n = lowest_unused 0 (map fst t) in (n, AList.update n DevNull t))"

definition os_dup :: "fd \<Rightarrow> fdtable \<Rightarrow> (error + fd) \<times> fdtable" where
  "os_dup f t =
     (case map_of t f of
        None \<Rightarrow> (Inl OSError, t)
      | Some d \<Rightarrow> (let n = lowest_unused 0 (map fst t) in (Inr n, AList.update n d t)))"

definition os_dup2 :: "fd \<Rightarrow> fd \<Rightarrow> fdtable \<Rightarrow> (error + unit) \<times> fdtable" where
  "os_dup2 f f2 t =
     (case map_of t f of
        None \<Rightarrow> (Inl OSError, t)
      | Some d \<Rightarrow> (Inr (), AList.update f2 d t))"

definition os_close :: "fd \<Rightarrow> fdtable \<Rightarrow> (error + unit) \<times> fdtable" where
  "os_close f t =
     (case map_of t f of
        None \<Rightarrow> (Inl OSError, t)
      | Some d \<Rightarrow> (Inr (), AList.delete f t))"

text \<open>
  The three loops of \<^verbatim>\<open>muted\<close>: the list comprehension of line 48, the
  redirection of lines 49-50 and the restoration of lines 53-54. Each stops at the first
  operation that raises.
\<close>

fun dup_streams :: "fd list \<Rightarrow> fdtable \<Rightarrow> (error + fd list) \<times> fdtable" where
  "dup_streams [] t = (Inr [], t)"
| "dup_streams (s # ss) t =
     (case os_dup s t of
        (Inl err, t) \<Rightarrow> (Inl err, t)
      | (Inr old, t) \<Rightarrow>
          (case dup_streams ss t of
             (Inl err, t) \<Rightarrow> (Inl err, t)
           | (Inr olds, t) \<Rightarrow> (Inr (old # olds), t)))"

fun redirect_streams :: "fd \<Rightarrow> fd list \<Rightarrow> fdtable \<Rightarrow> (error + unit) \<times> fdtable" where
  "redirect_streams devnull [] t = (Inr (), t)"
| "redirect_streams devnull (s # ss) t =
     (case os_dup2 devnull s t of
        (Inl err, t) \<Rightarrow> (Inl err, t)
      | (Inr _, t) \<Rightarrow> redirect_streams devnull ss t)"

fun restore_streams :: "(fd \<times> fd) list \<Rightarrow> fdtable \<Rightarrow> (error + unit) \<times> fdtable" where
  "restore_streams [] t = (Inr (), t)"
| "restore_streams ((old, n) # ps) t =
     (case os_dup2 old n t of
        (Inl err, t) \<Rightarrow> (Inl err, t)
      | (Inr _, t) \<Rightarrow> restore_streams ps t)"

text \<open>
  The \<^verbatim>\<open>finally\<close> clause (lines 52-55). \<open>old_streams\<close> is \<open>None\<close>
  when the list comprehension raised before the variable was bound: reading it then
  raises \<^verbatim>\<open>UnboundLocalError\<close>, a \<^verbatim>\<open>NameError\<close>. An exception
  raised in the clause replaces the pending one; otherwise the pending one propagates.
\<close>

definition muted_finally ::
    "fd \<Rightarrow> fd list option \<Rightarrow> fd list \<Rightarrow> error option \<Rightarrow> fdtable \<Rightarrow> error option \<times> fdtable" where
  "muted_finally devnull old_streams streams pending t =
     (case old_streams of
        None \<Rightarrow> (Some NameError, t)
      | Some olds \<Rightarrow>
          (case restore_streams (zip olds streams) t of
             (Inl err, t) \<Rightarrow> (Some err, t)
           | (Inr _, t) \<Rightarrow>
               (case os_close devnull t of
                  (Inl err, t) \<Rightarrow> (Some err, t)
                | (Inr _, t) \<Rightarrow> (pending, t))))"

text \<open>
  The context manager around a block. The block is any function on the descriptor table
  that returns the exception it raised, if any. Opening the null device (line 46, before
  the \<^verbatim>\<open>try\<close>) is taken to succeed.
\<close>

definition muted ::
    "fd list \<Rightarrow> (fdtable \<Rightarrow> error option \<times> fdtable) \<Rightarrow> fdtable \<Rightarrow> error option \<times> fdtable" where
  "muted streams body t =
     (case os_open_devnull t of
        (devnull, t) \<Rightarrow>
          (case dup_streams streams t of
             (Inl err, t) \<Rightarrow> muted_finally devnull None streams (Some err) t
           | (Inr old_streams, t) \<Rightarrow>
               (case redirect_streams devnull streams t of
                  (Inl err, t) \<Rightarrow> muted_finally devnull (Some old_streams) streams (Some err) t
                | (Inr _, t) \<Rightarrow>
                    (case body t of
                       (exc, t) \<Rightarrow> muted_finally devnull (Some old_streams) streams exc t))))"

section \<open>The build command\<close>

text \<open>
  \<^verbatim>\<open>class BuildCommand(build)\<close>: the attributes inherited from distutils'
  \<^verbatim>\<open>build\<close> command of which the script reads one, \<^verbatim>\<open>plat_name\<close>
  (a string once the command is finalized, which distutils does before it calls
  \<^verbatim>\<open>run\<close>), and the four options the subclass adds.
\<close>

record build =
  plat_name :: string

record BuildCommand =
  base :: build
  dynamic_linking :: pyval
  enable_magic :: pyval
  enable_cuckoo :: pyval
  enable_profiling :: pyval

text \<open>
  \<^verbatim>\<open>finalize_options\<close> (lines 87-94). The inherited
  \<^verbatim>\<open>build.finalize_options(self)\<close> belongs to distutils, not to this
  repository: it is the parameter \<open>build_finalize_options\<close>, which works on the
  inherited attributes and may itself raise. The two messages are written in the source
  as \<^verbatim>\<open>'... can''t be used ...'\<close>, two adjacent literals that Python
  concatenates, so the text has no apostrophe.
\<close>

definition finalize_options ::
    "(build \<Rightarrow> error + build) \<Rightarrow> BuildCommand \<Rightarrow> error + BuildCommand" where
  "finalize_options build_finalize_options self =
     (case build_finalize_options (base self) of
        Inl e \<Rightarrow> Inl e
      | Inr b \<Rightarrow>
          (let self = self\<lparr>base := b\<rparr> in
           if truthy (enable_magic self) \<and> truthy (dynamic_linking self) then
             Inl (DistutilsOptionError ''--enable-magic cant be used with --dynamic-linking'')
           else if truthy (enable_cuckoo self) \<and> truthy (dynamic_linking self) then
             Inl (DistutilsOptionError ''--enable-cuckoo cant be used with --dynamic-linking'')
           else Inr self))"

section \<open>The environment of a run\<close>

text \<open>
  What \<^verbatim>\<open>run\<close> reads from outside the script: the answer of the C compiler to
  a capability probe (\<^verbatim>\<open>compiler.has_function(name, libraries=...)\<close>), the
  path functions of \<^verbatim>\<open>os.path\<close> (they differ between POSIX and Windows) and
  the directory tree that \<^verbatim>\<open>os.walk\<close> lists, as
  (directory, subdirectories, files) triples.
\<close>

record env =
  compiler_has_function :: "string \<Rightarrow> string list option \<Rightarrow> bool"
  os_path_normpath :: "string \<Rightarrow> string"
  os_path_join :: "string \<Rightarrow> string \<Rightarrow> string"
  os_walk :: "string \<Rightarrow> (string \<times> string list \<times> string list) list"

text \<open>
  \<^verbatim>\<open>has_function\<close> (lines 58-66) returns what the compiler answered. The
  redirection of the output streams around the probe is \<open>muted\<close> above, modelled on
  its own: \<^verbatim>\<open>run\<close> is modelled for the executions in which a compiler
  object is created and the redirection around each probe succeeds. The removal of
  \<^verbatim>\<open>a.out\<close> touches no value that \<^verbatim>\<open>run\<close> reads.
\<close>

definition has_function :: "env \<Rightarrow> string \<Rightarrow> string list option \<Rightarrow> bool" where
  "has_function e function_name libs = compiler_has_function e function_name libs"

text \<open>The local variables of \<^verbatim>\<open>run\<close> (lines 104-110).\<close>

record locals =
  sources :: "string list"
  exclusions :: "string list"
  libraries :: "string list"
  include_dirs :: "string list"
  library_dirs :: "string list"
  compile_args :: "string list"
  macros :: "(string \<times> string) list"

text \<open>
  The two nested loops over \<^verbatim>\<open>os.walk('yara/libyara/')\<close> (lines 172-176):
  every file is joined to its directory and normalized, and appended to the sources when
  it ends in \<^verbatim>\<open>.c\<close> and is not excluded.
\<close>

definition walk_files :: "env \<Rightarrow> string list \<Rightarrow> string \<Rightarrow> string list \<Rightarrow> string list \<Rightarrow> string list" where
  "walk_files e excl directory files srcs =
     fold (\<lambda>x srcs.
        let x = os_path_normpath e (os_path_join e directory x) in
        if endswith x ''.c'' \<and> x \<notin> set excl then srcs @ [x] else srcs) files srcs"

definition walk_sources :: "env \<Rightarrow> string list \<Rightarrow> string list \<Rightarrow> string list" where
  "walk_sources e excl srcs =
     fold (\<lambda>(directory, _, files) srcs. walk_files e excl directory files srcs)
       (os_walk e ''yara/libyara/'') srcs"

text \<open>
  \<^verbatim>\<open>run\<close> (lines 96-187), up to the value of its local variables when the
  extension is built from them (line 178). \<^verbatim>\<open>bits\<close> is bound in the Windows
  branch only and read only when \<^verbatim>\<open>building_for_windows\<close> holds. The one
  statement of the script's own that can raise is \<^verbatim>\<open>libraries.remove('yara')\<close>.
  The \<^verbatim>\<open>os.chdir\<close> of line 102 fixes the directory that the relative paths
  are read from: the environment lists the tree as seen from there. The inherited
  \<^verbatim>\<open>build.run(self)\<close> that follows is distutils' build itself.
\<close>

definition run :: "env \<Rightarrow> BuildCommand \<Rightarrow> error + locals" where
  "run e self =
    (let v = \<lparr>sources = [''yara-python.c''],
              exclusions = [''yara/libyara/modules/pe_utils.c''],
              libraries = [''yara''],
              include_dirs = [], library_dirs = [], compile_args = [], macros = []\<rparr>;
         building_for_windows = (plat_name (base self) \<in> set [''win32'', ''win-amd64'']);
         bits = (if plat_name (base self) = ''win-amd64'' then ''64'' else ''32'');
         v = (if building_for_windows then
                v\<lparr>macros := macros v @ [(''_CRT_SECURE_NO_WARNINGS'', ''1'')],
                  libraries := libraries v @ [''advapi32''] @ [''user32'']\<rparr>
              else v);
         v = (if str_contains ''macosx'' (plat_name (base self)) then
                v\<lparr>include_dirs := include_dirs v @ [''/opt/local/include''],
                  library_dirs := library_dirs v @ [''/opt/local/lib'']\<rparr>
              else v);
         v = (if has_function e ''memmem'' None then
                v\<lparr>macros := macros v @ [(''HAVE_MEMMEM'', ''1'')]\<rparr> else v);
         v = (if has_function e ''strlcpy'' None then
                v\<lparr>macros := macros v @ [(''HAVE_STRLCPY'', ''1'')]\<rparr> else v);
         v = (if has_function e ''strlcat'' None then
                v\<lparr>macros := macros v @ [(''HAVE_STRLCAT'', ''1'')]\<rparr> else v);
         v = (if truthy (enable_profiling self) then
                v\<lparr>macros := macros v @ [(''PROFILING_ENABLED'', ''1'')]\<rparr> else v)
     in
     if \<not> truthy (dynamic_linking self) then
       (case list_remove (libraries v) ''yara'' of
          Inl err \<Rightarrow> Inl err
        | Inr libs \<Rightarrow>
           (let v = v\<lparr>libraries := libs\<rparr>;
                v = v\<lparr>include_dirs :=
                       include_dirs v @ [''yara/libyara/include'', ''yara/libyara/'', ''.'']\<rparr>;
                v = (if building_for_windows then
                       v\<lparr>include_dirs := include_dirs v @ [''yara/windows/include''],
                         library_dirs := library_dirs v @ [''yara/windows/lib'']\<rparr>
                     else v);
                v = (if building_for_windows then
                       v\<lparr>macros := macros v @ [(''HASH'', ''1'')],
                         libraries := libraries v @ [''libeay'' @ bits]\<rparr>
                     else if has_function e ''MD5_Init'' (Some [''crypto'']) \<and>
                             has_function e ''SHA256_Init'' (Some [''crypto'']) then
                       v\<lparr>macros := macros v @ [(''HASH'', ''1'')],
                         libraries := libraries v @ [''crypto'']\<rparr>
                     else
                       v\<lparr>exclusions := exclusions v @ [''yara/libyara/modules/hash.c'']\<rparr>);
                v = (if truthy (enable_magic self) then
                       v\<lparr>macros := macros v @ [(''MAGIC'', ''1'')]\<rparr>
                     else
                       v\<lparr>exclusions := exclusions v @ [''yara/libyara/modules/magic.c'']\<rparr>);
                v = (if truthy (enable_cuckoo self) then
                       (let v = v\<lparr>macros := macros v @ [(''CUCKOO'', ''1'')]\<rparr> in
                        if building_for_windows then
                          v\<lparr>libraries := libraries v @ [''jansson'' @ bits]\<rparr>
                        else
                          v\<lparr>libraries := libraries v @ [''jansson'']\<rparr>)
                     else
                       v\<lparr>exclusions := exclusions v @ [''yara/libyara/modules/cuckoo.c'']\<rparr>);
                v = v\<lparr>exclusions := map (os_path_normpath e) (exclusions v)\<rparr>;
                v = v\<lparr>sources := walk_sources e (exclusions v) (sources v)\<rparr>
            in Inr v))
     else Inr v)"

text \<open>The extension handed to distutils (lines 178-185).\<close>

record Extension =
  ext_name :: string
  ext_sources :: "string list"
  ext_include_dirs :: "string list"
  ext_library_dirs :: "string list"
  ext_libraries :: "string list"
  ext_define_macros :: "(string \<times> string) list"
  ext_extra_compile_args :: "string list"

definition ext_modules :: "locals \<Rightarrow> Extension list" where
  "ext_modules v =
     [\<lparr>ext_name = ''yara'', ext_sources = sources v, ext_include_dirs = include_dirs v,
       ext_library_dirs = library_dirs v, ext_libraries = libraries v,
       ext_define_macros = macros v, ext_extra_compile_args = compile_args v\<rparr>]"

section \<open>Derived names used in the statements\<close>

text \<open>
  The conditions that \<^verbatim>\<open>run\<close> computes on its way, under the names of its
  local variables, and the lists that it builds from them.
\<close>

definition building_for_windows :: "BuildCommand \<Rightarrow> bool" where
  "building_for_windows self = (plat_name (base self) \<in> set [''win32'', ''win-amd64''])"

definition building_for_osx :: "BuildCommand \<Rightarrow> bool" where
  "building_for_osx self = str_contains ''macosx'' (plat_name (base self))"

definition bits :: "BuildCommand \<Rightarrow> string" where
  "bits self = (if plat_name (base self) = ''win-amd64'' then ''64'' else ''32'')"

definition crypto_probe :: "env \<Rightarrow> bool" where
  "crypto_probe e = (has_function e ''MD5_Init'' (Some [''crypto'']) \<and>
                     has_function e ''SHA256_Init'' (Some [''crypto'']))"

definition common_macros :: "env \<Rightarrow> BuildCommand \<Rightarrow> (string \<times> string) list" where
  "common_macros e self =
     (if building_for_windows self then [(''_CRT_SECURE_NO_WARNINGS'', ''1'')] else []) @
     (if has_function e ''memmem'' None then [(''HAVE_MEMMEM'', ''1'')] else []) @
     (if has_function e ''strlcpy'' None then [(''HAVE_STRLCPY'', ''1'')] else []) @
     (if has_function e ''strlcat'' None then [(''HAVE_STRLCAT'', ''1'')] else []) @
     (if truthy (enable_profiling self) then [(''PROFILING_ENABLED'', ''1'')] else [])"

definition static_exclusions :: "env \<Rightarrow> BuildCommand \<Rightarrow> string list" where
  "static_exclusions e self =
     map (os_path_normpath e)
       ([''yara/libyara/modules/pe_utils.c''] @
        (if \<not> building_for_windows self \<and> \<not> crypto_probe e
         then [''yara/libyara/modules/hash.c''] else []) @
        (if truthy (enable_magic self) then [] else [''yara/libyara/modules/magic.c'']) @
        (if truthy (enable_cuckoo self) then [] else [''yara/libyara/modules/cuckoo.c'']))"

text \<open>
  The normalized path of every file that the walk of \<^verbatim>\<open>yara/libyara/\<close>
  lists, in the order of the walk.
\<close>

definition discovered :: "env \<Rightarrow> string list" where
  "discovered e =
     concat (map (\<lambda>(directory, _, files).
                    map (\<lambda>x. os_path_normpath e (os_path_join e directory x)) files)
                 (os_walk e ''yara/libyara/''))"

text \<open>
  The four lists of a run written as functions of what the run reads: the platform
  identifier, the truth values of the options, the answers of the five probes, the
  normalized exclusion paths and the discovered files, in the order of the walk.
\<close>

definition derived_macros :: "env \<Rightarrow> BuildCommand \<Rightarrow> (string \<times> string) list" where
  "derived_macros e self =
     common_macros e self @
     (if truthy (dynamic_linking self) then []
      else (if building_for_windows self \<or> crypto_probe e then [(''HASH'', ''1'')] else []) @
           (if truthy (enable_magic self) then [(''MAGIC'', ''1'')] else []) @
           (if truthy (enable_cuckoo self) then [(''CUCKOO'', ''1'')] else []))"

definition derived_libraries :: "env \<Rightarrow> BuildCommand \<Rightarrow> string list" where
  "derived_libraries e self =
     (if truthy (dynamic_linking self) then [''yara''] else []) @
     (if building_for_windows self then [''advapi32'', ''user32''] else []) @
     (if truthy (dynamic_linking self) then []
      else (if building_for_windows self then [''libeay'' @ bits self]
            else if crypto_probe e then [''crypto''] else []) @
           (if truthy (enable_cuckoo self)
            then [if building_for_windows self then ''jansson'' @ bits self else ''jansson'']
            else []))"

definition derived_exclusions :: "env \<Rightarrow> BuildCommand \<Rightarrow> string list" where
  "derived_exclusions e self =
     (if truthy (dynamic_linking self) then [''yara/libyara/modules/pe_utils.c'']
      else static_exclusions e self)"

definition derived_sources :: "env \<Rightarrow> BuildCommand \<Rightarrow> string list" where
  "derived_sources e self =
     ''yara-python.c'' #
     (if truthy (dynamic_linking self) then []
      else filter (\<lambda>x. endswith x ''.c'' \<and> x \<notin> set (static_exclusions e self))
             (discovered e))"

section \<open>A concrete environment for the examples\<close>

text \<open>
  The examples run the script on a POSIX system, where \<^verbatim>\<open>os.path\<close> is Python's
  \<^verbatim>\<open>posixpath\<close>: \<open>posix_normpath\<close> and \<open>posix_join\<close> follow the standard
  library's \<^verbatim>\<open>normpath\<close> and \<^verbatim>\<open>join\<close> (\<open>split_slash\<close> is
  \<^verbatim>\<open>path.split('/')\<close>, \<open>join_slash\<close> is \<^verbatim>\<open>'/'.join(comps)\<close>).
  The tree is a small excerpt of \<^verbatim>\<open>yara/libyara/\<close>; the capability probe is a
  parameter of the environment.
\<close>

fun split_slash :: "string \<Rightarrow> string list" where
  "split_slash [] = [[]]"
| "split_slash (c # cs) =
     (if c = CHR ''/'' then [] # split_slash cs
      else (case split_slash cs of [] \<Rightarrow> [[c]] | w # ws \<Rightarrow> (c # w) # ws))"

fun join_slash :: "string list \<Rightarrow> string" where
  "join_slash [] = []"
| "join_slash [c] = c"
| "join_slash (c # cs) = c @ ''/'' @ join_slash cs"

definition posix_normpath :: "string \<Rightarrow> string" where
  "posix_normpath path =
     (if path = [] then ''.''
      else
        let initial_slashes =
              (if take 1 path = ''/'' then
                 (if take 2 path = ''//'' \<and> take 3 path \<noteq> ''///'' then 2 else 1)
               else (0::nat));
            comps = fold (\<lambda>comp new_comps.
                      if comp = [] \<or> comp = ''.'' then new_comps
                      else if comp \<noteq> ''..'' \<or> (initial_slashes = 0 \<and> new_comps = []) \<or>
                              (new_comps \<noteq> [] \<and> last new_comps = ''..'')
                      then new_comps @ [comp]
                      else if new_comps \<noteq> [] then butlast new_comps else new_comps)
                    (split_slash path) [];
            path = replicate initial_slashes (CHR ''/'') @ join_slash comps
        in if path = [] then ''.'' else path)"

definition posix_join :: "string \<Rightarrow> string \<Rightarrow> string" where
  "posix_join a b =
     (if take 1 b = ''/'' then b
      else if a = [] \<or> last a = CHR ''/'' then a @ b
      else a @ ''/'' @ b)"

definition example_tree :: "(string \<times> string list \<times> string list) list" where
  "example_tree =
     [(''yara/libyara/'', [''modules''], [''rules.c'', ''Makefile.am'']),
      (''yara/libyara/modules'', [],
         [''pe.c'', ''pe_utils.c'', ''hash.c'', ''magic.c'', ''cuckoo.c''])]"

definition posix_env :: "(string \<Rightarrow> string list option \<Rightarrow> bool) \<Rightarrow> env" where
  "posix_env probe =
     \<lparr>compiler_has_function = probe,
      os_path_normpath = posix_normpath,
      os_path_join = posix_join,
      os_walk = (\<lambda>top. if top = ''yara/libyara/'' then example_tree else [])\<rparr>"

text \<open>
  The same directories with the same files, listed in another order, as another file
  system may list them.
\<close>

definition reordered_tree :: "(string \<times> string list \<times> string list) list" where
  "reordered_tree =
     [(''yara/libyara/'', [''modules''], [''Makefile.am'', ''rules.c'']),
      (''yara/libyara/modules'', [],
         [''cuckoo.c'', ''hash.c'', ''magic.c'', ''pe.c'', ''pe_utils.c''])]"

definition reordered_env :: "(string \<Rightarrow> string list option \<Rightarrow> bool) \<Rightarrow> env" where
  "reordered_env probe =
     \<lparr>compiler_has_function = probe,
      os_path_normpath = posix_normpath,
      os_path_join = posix_join,
      os_walk = (\<lambda>top. if top = ''yara/libyara/'' then reordered_tree else [])\<rparr>"

definition command :: "string \<Rightarrow> pyval \<Rightarrow> pyval \<Rightarrow> pyval \<Rightarrow> pyval \<Rightarrow> BuildCommand" where
  "command plat dyn magic cuckoo prof =
     \<lparr>base = \<lparr>plat_name = plat\<rparr>, dynamic_linking = dyn, enable_magic = magic,
      enable_cuckoo = cuckoo, enable_profiling = prof\<rparr>"

text \<open>
  The exclusion list as the specification words it: only the module files of the disabled
  optional features, \<^verbatim>\<open>hash.c\<close> when the hashing probe fails,
  \<^verbatim>\<open>magic.c\<close> and \<^verbatim>\<open>cuckoo.c\<close> when their options are unset.
\<close>

definition spec_exclusions :: "env \<Rightarrow> BuildCommand \<Rightarrow> string list" where
  "spec_exclusions e self =
     map (os_path_normpath e)
       ((if \<not> crypto_probe e then [''yara/libyara/modules/hash.c''] else []) @
        (if truthy (enable_magic self) then [] else [''yara/libyara/modules/magic.c'']) @
        (if truthy (enable_cuckoo self) then [] else [''yara/libyara/modules/cuckoo.c'']))"

section \<open>The walk as a filter\<close>

lemma walk_files_eq:
  "walk_files e excl d files srcs =
     srcs @ filter (\<lambda>x. endswith x ''.c'' \<and> x \<notin> set excl)
              (map (\<lambda>x. os_path_normpath e (os_path_join e d x)) files)"
  unfolding walk_files_def
  by (induction files arbitrary: srcs) (simp_all add: Let_def)

lemma fold_walk_eq:
  "fold (\<lambda>(directory, _, files) srcs. walk_files e excl directory files srcs) w srcs =
     srcs @ filter (\<lambda>x. endswith x ''.c'' \<and> x \<notin> set excl)
              (concat (map (\<lambda>(directory, _, files).
                    map (\<lambda>x. os_path_normpath e (os_path_join e directory x)) files) w))"
  by (induction w arbitrary: srcs) (auto simp: walk_files_eq)

lemma walk_sources_eq:
  "walk_sources e excl srcs =
     srcs @ filter (\<lambda>x. endswith x ''.c'' \<and> x \<notin> set excl) (discovered e)"
  unfolding walk_sources_def discovered_def by (rule fold_walk_eq)

section \<open>The result of a run in closed form\<close>

text \<open>
  The chain of conditional updates of \<^verbatim>\<open>run\<close> is evaluated once, for each
  linking mode; the properties below are read off these two equations.
\<close>

lemma if_locals:
  "(if c then \<lparr>sources = s1, exclusions = x1, libraries = l1, include_dirs = i1,
               library_dirs = d1, compile_args = a1, macros = m1\<rparr>
    else \<lparr>sources = s2, exclusions = x2, libraries = l2, include_dirs = i2,
               library_dirs = d2, compile_args = a2, macros = m2\<rparr>) =
   \<lparr>sources = (if c then s1 else s2), exclusions = (if c then x1 else x2),
    libraries = (if c then l1 else l2), include_dirs = (if c then i1 else i2),
    library_dirs = (if c then d1 else d2), compile_args = (if c then a1 else a2),
    macros = (if c then m1 else m2)\<rparr>"
  by simp

lemma if_append: "(if c then xs @ ys else xs) = xs @ (if c then ys else [])"
  by simp

lemma if_Cons: "(if c then x # xs else x # ys) = x # (if c then xs else ys)"
  by simp

lemmas run_simps = run_def Let_def list_remove_def if_locals if_append if_Cons
  building_for_windows_def building_for_osx_def bits_def crypto_probe_def
  common_macros_def static_exclusions_def

lemma run_dynamic:
  assumes "truthy (dynamic_linking self)"
  shows "run e self =
     Inr \<lparr>sources = [''yara-python.c''],
          exclusions = [''yara/libyara/modules/pe_utils.c''],
          libraries = ''yara'' #
            (if building_for_windows self then [''advapi32'', ''user32''] else []),
          include_dirs = (if building_for_osx self then [''/opt/local/include''] else []),
          library_dirs = (if building_for_osx self then [''/opt/local/lib''] else []),
          compile_args = [],
          macros = common_macros e self\<rparr>"
  using assms by (simp add: run_simps cong: let_weak_cong if_cong)

lemma run_static:
  assumes "\<not> truthy (dynamic_linking self)"
  shows "run e self =
     Inr \<lparr>sources = walk_sources e (static_exclusions e self) [''yara-python.c''],
          exclusions = static_exclusions e self,
          libraries =
            (if building_for_windows self then [''advapi32'', ''user32''] else []) @
            (if building_for_windows self then [''libeay'' @ bits self]
             else if crypto_probe e then [''crypto''] else []) @
            (if truthy (enable_cuckoo self)
             then [if building_for_windows self then ''jansson'' @ bits self else ''jansson'']
             else []),
          include_dirs =
            (if building_for_osx self then [''/opt/local/include''] else []) @
            [''yara/libyara/include'', ''yara/libyara/'', ''.''] @
            (if building_for_windows self then [''yara/windows/include''] else []),
          library_dirs =
            (if building_for_osx self then [''/opt/local/lib''] else []) @
            (if building_for_windows self then [''yara/windows/lib''] else []),
          compile_args = [],
          macros = common_macros e self @
            (if building_for_windows self \<or> crypto_probe e then [(''HASH'', ''1'')] else []) @
            (if truthy (enable_magic self) then [(''MAGIC'', ''1'')] else []) @
            (if truthy (enable_cuckoo self) then [(''CUCKOO'', ''1'')] else [])\<rparr>"
  using assms by (simp add: run_simps cong: let_weak_cong if_cong)

section \<open>Option finalization\<close>

text \<open>
  C1. Whenever the inherited finalization of distutils returns, \<^verbatim>\<open>finalize_options\<close>
  raises \<^verbatim>\<open>DistutilsOptionError\<close> exactly when \<^verbatim>\<open>enable_magic\<close> and
  \<^verbatim>\<open>dynamic_linking\<close> are both set, or \<^verbatim>\<open>enable_cuckoo\<close> and
  \<^verbatim>\<open>dynamic_linking\<close> are both set, for every value of the four options. In
  particular no single option raises when set alone.
\<close>

theorem finalize_options_raises_iff:
  assumes "build_finalize_options (base self) = Inr b"
  shows "((\<exists>msg. finalize_options build_finalize_options self = Inl (DistutilsOptionError msg))
           \<longleftrightarrow> (truthy (enable_magic self) \<and> truthy (dynamic_linking self))
              \<or> (truthy (enable_cuckoo self) \<and> truthy (dynamic_linking self)))
       \<and> (isl (finalize_options build_finalize_options self)
           \<longleftrightarrow> (truthy (enable_magic self) \<and> truthy (dynamic_linking self))
              \<or> (truthy (enable_cuckoo self) \<and> truthy (dynamic_linking self)))"
  using assms by (simp add: finalize_options_def Let_def)

theorem finalize_options_raises_iff_witness:
  "Inr (base (command ''linux-x86_64'' (PyInt 1) (PyInt 1) PyNone PyNone)) =
     (Inr \<lparr>plat_name = ''linux-x86_64''\<rparr> :: error + build)
   \<and> (\<exists>msg. finalize_options Inr (command ''linux-x86_64'' (PyInt 1) (PyInt 1) PyNone PyNone)
          = Inl (DistutilsOptionError msg))
   \<and> isl (finalize_options Inr (command ''linux-x86_64'' (PyInt 1) (PyInt 1) PyNone PyNone))"
  using finalize_options_raises_iff [of Inr
      "command ''linux-x86_64'' (PyInt 1) (PyInt 1) PyNone PyNone"
      "\<lparr>plat_name = ''linux-x86_64''\<rparr>"]
  by (simp add: command_def)

section \<open>Platform settings\<close>

text \<open>
  C3, as amended. For a platform identifier equal to \<^verbatim>\<open>win32\<close> or
  \<^verbatim>\<open>win-amd64\<close>, every run defines the macro
  \<^verbatim>\<open>_CRT_SECURE_NO_WARNINGS\<close> and links \<^verbatim>\<open>advapi32\<close> and
  \<^verbatim>\<open>user32\<close>. The script tests membership in the pair of identifiers, not
  containment of a marker.
\<close>

theorem windows_macro_and_libraries:
  assumes "plat_name (base self) = ''win32'' \<or> plat_name (base self) = ''win-amd64''"
  shows "\<exists>v. run e self = Inr v
           \<and> (''_CRT_SECURE_NO_WARNINGS'', ''1'') \<in> set (macros v)
           \<and> ''advapi32'' \<in> set (libraries v) \<and> ''user32'' \<in> set (libraries v)"
proof (cases "truthy (dynamic_linking self)")
  case True
  from assms show ?thesis
    by (simp add: run_dynamic [OF True] building_for_windows_def common_macros_def)
next
  case False
  from assms show ?thesis
    by (simp add: run_static [OF False] building_for_windows_def common_macros_def)
qed

theorem windows_macro_and_libraries_witness:
  "(plat_name (base (command ''win32'' PyNone PyNone PyNone PyNone)) = ''win32'')
   \<and> (\<exists>v. run (posix_env (\<lambda>_ _. False)) (command ''win32'' PyNone PyNone PyNone PyNone) = Inr v
           \<and> (''_CRT_SECURE_NO_WARNINGS'', ''1'') \<in> set (macros v)
           \<and> ''advapi32'' \<in> set (libraries v) \<and> ''user32'' \<in> set (libraries v))"
  using windows_macro_and_libraries [of "command ''win32'' PyNone PyNone PyNone PyNone"
      "posix_env (\<lambda>_ _. False)"]
  by (simp add: command_def)

text \<open>
  The identifier \<^verbatim>\<open>i686-pc-win32\<close> contains the marker \<^verbatim>\<open>win32\<close>
  and gets none of the Windows settings.
\<close>

theorem windows_marker_counterexample:
  "str_contains ''win32'' (plat_name (base (command ''i686-pc-win32'' PyNone PyNone PyNone PyNone)))
   \<and> \<not> isl (run (posix_env (\<lambda>_ _. True)) (command ''i686-pc-win32'' PyNone PyNone PyNone PyNone))
   \<and> (''_CRT_SECURE_NO_WARNINGS'', ''1'') \<notin>
        set (macros (projr (run (posix_env (\<lambda>_ _. True))
                              (command ''i686-pc-win32'' PyNone PyNone PyNone PyNone))))
   \<and> ''advapi32'' \<notin>
        set (libraries (projr (run (posix_env (\<lambda>_ _. True))
                              (command ''i686-pc-win32'' PyNone PyNone PyNone PyNone))))
   \<and> ''user32'' \<notin>
        set (libraries (projr (run (posix_env (\<lambda>_ _. True))
                              (command ''i686-pc-win32'' PyNone PyNone PyNone PyNone))))"
proof -
  have d: "\<not> truthy (dynamic_linking (command ''i686-pc-win32'' PyNone PyNone PyNone PyNone))"
    by (simp add: command_def)
  show ?thesis
    by (simp add: run_static [OF d] building_for_windows_def common_macros_def
        crypto_probe_def has_function_def) (simp add: command_def posix_env_def)
qed

text \<open>
  C8. For every platform identifier that contains \<^verbatim>\<open>macosx\<close>, the run puts
  \<^verbatim>\<open>/opt/local/include\<close> among the include directories and
  \<^verbatim>\<open>/opt/local/lib\<close> among the library directories.
\<close>

theorem macosx_directories:
  assumes "str_contains ''macosx'' (plat_name (base self))"
  shows "\<exists>v. run e self = Inr v
           \<and> ''/opt/local/include'' \<in> set (include_dirs v)
           \<and> ''/opt/local/lib'' \<in> set (library_dirs v)"
proof (cases "truthy (dynamic_linking self)")
  case True
  from assms show ?thesis
    by (simp add: run_dynamic [OF True] building_for_osx_def)
next
  case False
  from assms show ?thesis
    by (simp add: run_static [OF False] building_for_osx_def)
qed

theorem macosx_directories_witness:
  "str_contains ''macosx'' (plat_name (base (command ''macosx-10.9-x86_64'' PyNone PyNone PyNone PyNone)))
   \<and> (\<exists>v. run (posix_env (\<lambda>_ _. True)) (command ''macosx-10.9-x86_64'' PyNone PyNone PyNone PyNone) = Inr v
           \<and> ''/opt/local/include'' \<in> set (include_dirs v)
           \<and> ''/opt/local/lib'' \<in> set (library_dirs v))"
  using macosx_directories [of "command ''macosx-10.9-x86_64'' PyNone PyNone PyNone PyNone"
      "posix_env (\<lambda>_ _. True)"]
  by (simp add: command_def)

section \<open>Profiling\<close>

text \<open>
  C9. When \<^verbatim>\<open>enable_profiling\<close> is set, the run defines
  \<^verbatim>\<open>('PROFILING_ENABLED', '1')\<close> whatever the platform, the linking mode and
  the other options are; and the value of \<^verbatim>\<open>enable_profiling\<close> never
  decides whether option finalization raises, nor which error it raises.
\<close>

theorem profiling_macro_and_no_error:
  "(truthy (enable_profiling self) \<longrightarrow>
      (\<exists>v. run e self = Inr v \<and> (''PROFILING_ENABLED'', ''1'') \<in> set (macros v)))
   \<and> (finalize_options build_finalize_options (self\<lparr>enable_profiling := p\<rparr>) = Inl err
        \<longleftrightarrow> finalize_options build_finalize_options self = Inl err)"
proof (intro conjI impI)
  assume p: "truthy (enable_profiling self)"
  show "\<exists>v. run e self = Inr v \<and> (''PROFILING_ENABLED'', ''1'') \<in> set (macros v)"
  proof (cases "truthy (dynamic_linking self)")
    case True
    from p show ?thesis by (simp add: run_dynamic [OF True] common_macros_def)
  next
    case False
    from p show ?thesis by (simp add: run_static [OF False] common_macros_def)
  qed
next
  show "finalize_options build_finalize_options (self\<lparr>enable_profiling := p\<rparr>) = Inl err
        \<longleftrightarrow> finalize_options build_finalize_options self = Inl err"
    by (simp add: finalize_options_def Let_def split: sum.splits)
qed

theorem profiling_macro_and_no_error_witness:
  "truthy (enable_profiling (command ''linux-x86_64'' (PyInt 1) PyNone PyNone (PyInt 1)))
   \<and> (\<exists>v. run (posix_env (\<lambda>_ _. True)) (command ''linux-x86_64'' (PyInt 1) PyNone PyNone (PyInt 1)) = Inr v
          \<and> (''PROFILING_ENABLED'', ''1'') \<in> set (macros v))
   \<and> (finalize_options Inr ((command ''linux-x86_64'' (PyInt 1) (PyInt 1) PyNone PyNone)
           \<lparr>enable_profiling := PyInt 1\<rparr>)
         = Inl (DistutilsOptionError ''--enable-magic cant be used with --dynamic-linking''))
   \<and> (finalize_options Inr (command ''linux-x86_64'' (PyInt 1) (PyInt 1) PyNone PyNone)
         = Inl (DistutilsOptionError ''--enable-magic cant be used with --dynamic-linking''))"
proof -
  have f: "finalize_options Inr (command ''linux-x86_64'' (PyInt 1) (PyInt 1) PyNone PyNone)
         = Inl (DistutilsOptionError ''--enable-magic cant be used with --dynamic-linking'')"
    by (simp add: finalize_options_def command_def)
  have t: "truthy (enable_profiling (command ''linux-x86_64'' (PyInt 1) PyNone PyNone (PyInt 1)))"
    by (simp add: command_def)
  show ?thesis
    using f t
      profiling_macro_and_no_error [of "command ''linux-x86_64'' (PyInt 1) PyNone PyNone (PyInt 1)"
        "posix_env (\<lambda>_ _. True)"]
      profiling_macro_and_no_error [of "command ''linux-x86_64'' (PyInt 1) (PyInt 1) PyNone PyNone"
        _ Inr "PyInt 1"
        "DistutilsOptionError ''--enable-magic cant be used with --dynamic-linking''"]
    by blast
qed

section \<open>Hashing support in a static build\<close>

text \<open>
  C4. In a run without dynamic linking, on a platform other than \<^verbatim>\<open>win32\<close>
  and \<^verbatim>\<open>win-amd64\<close>, when the probe of \<^verbatim>\<open>MD5_Init\<close> or of
  \<^verbatim>\<open>SHA256_Init\<close> in \<^verbatim>\<open>crypto\<close> fails, the run returns without
  an error: \<^verbatim>\<open>hash.c\<close> is on the exclusion list, the macro
  \<^verbatim>\<open>HASH\<close> is not defined and \<^verbatim>\<open>crypto\<close> is not linked.
\<close>

theorem static_hash_probe_failure:
  assumes "\<not> truthy (dynamic_linking self)"
    and "plat_name (base self) \<noteq> ''win32''" and "plat_name (base self) \<noteq> ''win-amd64''"
    and "\<not> (has_function e ''MD5_Init'' (Some [''crypto'']) \<and>
            has_function e ''SHA256_Init'' (Some [''crypto'']))"
  shows "\<exists>v. run e self = Inr v
           \<and> os_path_normpath e ''yara/libyara/modules/hash.c'' \<in> set (exclusions v)
           \<and> (''HASH'', ''1'') \<notin> set (macros v)
           \<and> ''crypto'' \<notin> set (libraries v)"
  using assms(2-)
  by (simp add: run_static [OF assms(1)] building_for_windows_def common_macros_def
      static_exclusions_def crypto_probe_def)

theorem static_hash_probe_failure_witness:
  "\<not> truthy (dynamic_linking (command ''linux-x86_64'' PyNone PyNone PyNone PyNone))
   \<and> plat_name (base (command ''linux-x86_64'' PyNone PyNone PyNone PyNone)) \<noteq> ''win32''
   \<and> plat_name (base (command ''linux-x86_64'' PyNone PyNone PyNone PyNone)) \<noteq> ''win-amd64''
   \<and> \<not> (has_function (posix_env (\<lambda>_ libs. libs = None)) ''MD5_Init'' (Some [''crypto'']) \<and>
         has_function (posix_env (\<lambda>_ libs. libs = None)) ''SHA256_Init'' (Some [''crypto'']))
   \<and> (\<exists>v. run (posix_env (\<lambda>_ libs. libs = None))
              (command ''linux-x86_64'' PyNone PyNone PyNone PyNone) = Inr v
           \<and> ''yara/libyara/modules/hash.c'' \<in> set (exclusions v)
           \<and> (''HASH'', ''1'') \<notin> set (macros v)
           \<and> ''crypto'' \<notin> set (libraries v))"
proof -
  have n: "os_path_normpath (posix_env (\<lambda>_ libs. libs = None)) ''yara/libyara/modules/hash.c''
           = ''yara/libyara/modules/hash.c''"
    by (simp add: posix_env_def posix_normpath_def)
  show ?thesis
    using static_hash_probe_failure [of "command ''linux-x86_64'' PyNone PyNone PyNone PyNone"
      "posix_env (\<lambda>_ libs. libs = None)"]
    unfolding n
    by (simp add: command_def has_function_def posix_env_def)
qed

text \<open>
  C10. In a run without dynamic linking for \<^verbatim>\<open>win32\<close> or
  \<^verbatim>\<open>win-amd64\<close>, hashing is enabled without a probe: \<^verbatim>\<open>HASH\<close>
  is defined, \<^verbatim>\<open>libeay32\<close> or \<^verbatim>\<open>libeay64\<close> is linked
  according to the platform, the exclusion list holds \<^verbatim>\<open>pe_utils.c\<close> and
  the files of the unset options but never \<^verbatim>\<open>hash.c\<close>, and the result is
  the same whatever the compiler would answer to a probe that names a library.
\<close>

theorem windows_static_hash:
  assumes "\<not> truthy (dynamic_linking self)"
    and "plat_name (base self) = ''win32'' \<or> plat_name (base self) = ''win-amd64''"
    and "\<forall>name. probe name None = compiler_has_function e name None"
  shows "\<exists>v. run e self = Inr v
           \<and> (''HASH'', ''1'') \<in> set (macros v)
           \<and> (if plat_name (base self) = ''win-amd64'' then ''libeay64'' else ''libeay32'')
               \<in> set (libraries v)
           \<and> exclusions v = map (os_path_normpath e)
                ([''yara/libyara/modules/pe_utils.c''] @
                 (if truthy (enable_magic self) then [] else [''yara/libyara/modules/magic.c'']) @
                 (if truthy (enable_cuckoo self) then [] else [''yara/libyara/modules/cuckoo.c'']))
           \<and> run (e\<lparr>compiler_has_function := probe\<rparr>) self = Inr v"
proof -
  let ?e' = "e\<lparr>compiler_has_function := probe\<rparr>"
  have w: "building_for_windows self"
    using assms(2) by (auto simp: building_for_windows_def)
  have c: "common_macros ?e' self = common_macros e self"
    using assms(3) by (simp add: common_macros_def has_function_def)
  have x: "static_exclusions ?e' self = static_exclusions e self"
    using w by (simp add: static_exclusions_def)
  have s: "walk_sources ?e' xs ys = walk_sources e xs ys" for xs ys
    by (simp add: walk_sources_eq discovered_def)
  have "run ?e' self = run e self"
    using w by (simp add: run_static [OF assms(1)] c x s)
  moreover have "\<exists>v. run e self = Inr v
           \<and> (''HASH'', ''1'') \<in> set (macros v)
           \<and> (if plat_name (base self) = ''win-amd64'' then ''libeay64'' else ''libeay32'')
               \<in> set (libraries v)
           \<and> exclusions v = map (os_path_normpath e)
                ([''yara/libyara/modules/pe_utils.c''] @
                 (if truthy (enable_magic self) then [] else [''yara/libyara/modules/magic.c'']) @
                 (if truthy (enable_cuckoo self) then [] else [''yara/libyara/modules/cuckoo.c'']))"
    using w by (simp add: run_static [OF assms(1)] static_exclusions_def bits_def)
  ultimately show ?thesis by auto
qed

theorem windows_static_hash_witness:
  "\<not> truthy (dynamic_linking (command ''win-amd64'' PyNone PyNone PyNone PyNone))
   \<and> plat_name (base (command ''win-amd64'' PyNone PyNone PyNone PyNone)) = ''win-amd64''
   \<and> (\<exists>v. run (posix_env (\<lambda>_ _. False)) (command ''win-amd64'' PyNone PyNone PyNone PyNone) = Inr v
           \<and> (''HASH'', ''1'') \<in> set (macros v)
           \<and> ''libeay64'' \<in> set (libraries v)
           \<and> run (posix_env (\<lambda>_ libs. libs \<noteq> None)) (command ''win-amd64'' PyNone PyNone PyNone PyNone) = Inr v)"
proof -
  have e: "(posix_env (\<lambda>_ _. False))\<lparr>compiler_has_function := (\<lambda>_ libs. libs \<noteq> None)\<rparr>
             = posix_env (\<lambda>_ libs. libs \<noteq> None)"
    by (simp add: posix_env_def)
  have p: "\<forall>name. (\<lambda>_ libs. libs \<noteq> None) name (None :: string list option)
             = compiler_has_function (posix_env (\<lambda>_ _. False)) name None"
    by (simp add: posix_env_def)
  have d: "\<not> truthy (dynamic_linking (command ''win-amd64'' PyNone PyNone PyNone PyNone))"
    by (simp add: command_def)
  have w: "plat_name (base (command ''win-amd64'' PyNone PyNone PyNone PyNone)) = ''win32''
       \<or> plat_name (base (command ''win-amd64'' PyNone PyNone PyNone PyNone)) = ''win-amd64''"
    by (simp add: command_def)
  from windows_static_hash [of "command ''win-amd64'' PyNone PyNone PyNone PyNone"
      "\<lambda>_ libs. libs \<noteq> None" "posix_env (\<lambda>_ _. False)", OF d w p]
  show ?thesis
    unfolding e by (auto simp: command_def)
qed

section \<open>Linking mode and the source list\<close>

text \<open>
  C5. With dynamic linking set, \<^verbatim>\<open>yara\<close> stays in the library list and the
  source list is exactly \<^verbatim>\<open>['yara-python.c']\<close>. With dynamic linking unset,
  \<^verbatim>\<open>yara\<close> is removed from the library list and the engine is compiled in:
  the exclusion list is the normalized \<^verbatim>\<open>pe_utils.c\<close>, then
  \<^verbatim>\<open>hash.c\<close> when the build is not for Windows and the crypto probe fails,
  \<^verbatim>\<open>magic.c\<close> when \<^verbatim>\<open>enable_magic\<close> is unset and
  \<^verbatim>\<open>cuckoo.c\<close> when \<^verbatim>\<open>enable_cuckoo\<close> is unset, and the source
  list is \<^verbatim>\<open>yara-python.c\<close> followed by every discovered file that ends in
  \<^verbatim>\<open>.c\<close> and is not on that list, in the order of the walk. A command that
  passed option finalization with dynamic linking set has neither
  \<^verbatim>\<open>enable_magic\<close> nor \<^verbatim>\<open>enable_cuckoo\<close> set.
\<close>

theorem linking_mode:
  "(truthy (dynamic_linking self) \<longrightarrow>
      (\<exists>v. run e self = Inr v \<and> ''yara'' \<in> set (libraries v)
           \<and> sources v = [''yara-python.c'']))
   \<and> (\<not> truthy (dynamic_linking self) \<longrightarrow>
      (\<exists>v. run e self = Inr v \<and> ''yara'' \<notin> set (libraries v)
           \<and> exclusions v =
                map (os_path_normpath e)
                  ([''yara/libyara/modules/pe_utils.c''] @
                   (if \<not> building_for_windows self \<and> \<not> crypto_probe e
                    then [''yara/libyara/modules/hash.c''] else []) @
                   (if truthy (enable_magic self) then []
                    else [''yara/libyara/modules/magic.c'']) @
                   (if truthy (enable_cuckoo self) then []
                    else [''yara/libyara/modules/cuckoo.c'']))
           \<and> sources v = ''yara-python.c'' #
                filter (\<lambda>x. endswith x ''.c'' \<and> x \<notin> set (exclusions v)) (discovered e)
           \<and> (\<forall>p \<in> set (discovered e).
                 endswith p ''.c''
                 \<and> p \<noteq> os_path_normpath e ''yara/libyara/modules/pe_utils.c''
                 \<and> p \<noteq> os_path_normpath e ''yara/libyara/modules/hash.c''
                 \<and> p \<noteq> os_path_normpath e ''yara/libyara/modules/magic.c''
                 \<and> p \<noteq> os_path_normpath e ''yara/libyara/modules/cuckoo.c''
                 \<longrightarrow> p \<in> set (sources v))))
   \<and> (finalize_options build_finalize_options self0 = Inr self \<longrightarrow>
        truthy (dynamic_linking self) \<longrightarrow>
        \<not> truthy (enable_magic self) \<and> \<not> truthy (enable_cuckoo self))"
proof -
  have dyn: "\<exists>v. run e self = Inr v \<and> ''yara'' \<in> set (libraries v)
           \<and> sources v = [''yara-python.c'']"
    if d: "truthy (dynamic_linking self)"
    by (simp add: run_dynamic [OF d])
  have stat: "\<exists>v. run e self = Inr v \<and> ''yara'' \<notin> set (libraries v)
           \<and> exclusions v =
                map (os_path_normpath e)
                  ([''yara/libyara/modules/pe_utils.c''] @
                   (if \<not> building_for_windows self \<and> \<not> crypto_probe e
                    then [''yara/libyara/modules/hash.c''] else []) @
                   (if truthy (enable_magic self) then []
                    else [''yara/libyara/modules/magic.c'']) @
                   (if truthy (enable_cuckoo self) then []
                    else [''yara/libyara/modules/cuckoo.c'']))
           \<and> sources v = ''yara-python.c'' #
                filter (\<lambda>x. endswith x ''.c'' \<and> x \<notin> set (exclusions v)) (discovered e)
           \<and> (\<forall>p \<in> set (discovered e).
                 endswith p ''.c''
                 \<and> p \<noteq> os_path_normpath e ''yara/libyara/modules/pe_utils.c''
                 \<and> p \<noteq> os_path_normpath e ''yara/libyara/modules/hash.c''
                 \<and> p \<noteq> os_path_normpath e ''yara/libyara/modules/magic.c''
                 \<and> p \<noteq> os_path_normpath e ''yara/libyara/modules/cuckoo.c''
                 \<longrightarrow> p \<in> set (sources v))"
    if s: "\<not> truthy (dynamic_linking self)"
  proof -
    from run_static [OF s] obtain v where v: "run e self = Inr v"
      and src: "sources v = walk_sources e (static_exclusions e self) [''yara-python.c'']"
      and exc: "exclusions v = static_exclusions e self"
      and lib: "''yara'' \<notin> set (libraries v)"
      by (simp add: bits_def)
    have "sources v = ''yara-python.c'' #
            filter (\<lambda>x. endswith x ''.c'' \<and> x \<notin> set (exclusions v)) (discovered e)"
      by (simp add: src exc walk_sources_eq)
    moreover have "\<forall>p \<in> set (discovered e).
                 endswith p ''.c''
                 \<and> p \<noteq> os_path_normpath e ''yara/libyara/modules/pe_utils.c''
                 \<and> p \<noteq> os_path_normpath e ''yara/libyara/modules/hash.c''
                 \<and> p \<noteq> os_path_normpath e ''yara/libyara/modules/magic.c''
                 \<and> p \<noteq> os_path_normpath e ''yara/libyara/modules/cuckoo.c''
                 \<longrightarrow> p \<in> set (sources v)"
      by (auto simp: src walk_sources_eq static_exclusions_def)
    ultimately show ?thesis
      using v lib exc by (simp add: static_exclusions_def)
  qed
  have fin: "\<not> truthy (enable_magic self) \<and> \<not> truthy (enable_cuckoo self)"
    if "finalize_options build_finalize_options self0 = Inr self"
      and "truthy (dynamic_linking self)"
    using that by (auto simp: finalize_options_def Let_def split: sum.splits if_splits)
  from dyn stat fin show ?thesis by blast
qed

theorem linking_mode_witness:
  "truthy (dynamic_linking (command ''linux-x86_64'' (PyInt 1) PyNone PyNone PyNone))
   \<and> (\<exists>v. run (posix_env (\<lambda>_ _. True)) (command ''linux-x86_64'' (PyInt 1) PyNone PyNone PyNone) = Inr v
         \<and> ''yara'' \<in> set (libraries v) \<and> sources v = [''yara-python.c''])
   \<and> \<not> truthy (dynamic_linking (command ''linux-x86_64'' PyNone (PyInt 1) PyNone PyNone))
   \<and> (\<exists>v. run (posix_env (\<lambda>_ _. True)) (command ''linux-x86_64'' PyNone (PyInt 1) PyNone PyNone) = Inr v
         \<and> ''yara'' \<notin> set (libraries v)
         \<and> exclusions v = [''yara/libyara/modules/pe_utils.c'', ''yara/libyara/modules/cuckoo.c'']
         \<and> sources v = [''yara-python.c'', ''yara/libyara/rules.c'', ''yara/libyara/modules/pe.c'',
                        ''yara/libyara/modules/hash.c'', ''yara/libyara/modules/magic.c''])
   \<and> finalize_options Inr (command ''linux-x86_64'' (PyInt 1) PyNone PyNone PyNone)
        = Inr (command ''linux-x86_64'' (PyInt 1) PyNone PyNone PyNone)
   \<and> \<not> truthy (enable_magic (command ''linux-x86_64'' (PyInt 1) PyNone PyNone PyNone))
   \<and> \<not> truthy (enable_cuckoo (command ''linux-x86_64'' (PyInt 1) PyNone PyNone PyNone))"
proof -
  let ?e = "posix_env (\<lambda>_ _. True)"
  let ?dc = "command ''linux-x86_64'' (PyInt 1) PyNone PyNone PyNone"
  let ?sc = "command ''linux-x86_64'' PyNone (PyInt 1) PyNone PyNone"
  have d: "truthy (dynamic_linking ?dc)"
    by (simp add: command_def)
  have s: "\<not> truthy (dynamic_linking ?sc)"
    by (simp add: command_def)
  have f: "finalize_options Inr ?dc = Inr ?dc"
    by (simp add: finalize_options_def command_def)
  have dis: "discovered ?e =
     [''yara/libyara/rules.c'', ''yara/libyara/Makefile.am'',
      ''yara/libyara/modules/pe.c'', ''yara/libyara/modules/pe_utils.c'',
      ''yara/libyara/modules/hash.c'', ''yara/libyara/modules/magic.c'',
      ''yara/libyara/modules/cuckoo.c'']"
    by (simp add: discovered_def posix_env_def example_tree_def posix_join_def
        posix_normpath_def Let_def)
  have n: "os_path_normpath ?e ''yara/libyara/modules/pe_utils.c''
             = ''yara/libyara/modules/pe_utils.c''"
      "os_path_normpath ?e ''yara/libyara/modules/cuckoo.c''
             = ''yara/libyara/modules/cuckoo.c''"
    by (simp_all add: posix_env_def posix_normpath_def)
  have c: "crypto_probe ?e"
    by (simp add: crypto_probe_def has_function_def posix_env_def)
  have m: "truthy (enable_magic ?sc)" "\<not> truthy (enable_cuckoo ?sc)"
    by (simp_all add: command_def)
  from linking_mode [of ?dc ?e Inr ?dc] d f
  have one: "\<exists>v. run ?e ?dc = Inr v \<and> ''yara'' \<in> set (libraries v)
                \<and> sources v = [''yara-python.c'']"
    and three: "\<not> truthy (enable_magic ?dc) \<and> \<not> truthy (enable_cuckoo ?dc)"
    by blast+
  from linking_mode [of ?sc ?e] s
  obtain v where v: "run ?e ?sc = Inr v" and lib: "''yara'' \<notin> set (libraries v)"
    and exc: "exclusions v =
                map (os_path_normpath ?e)
                  ([''yara/libyara/modules/pe_utils.c''] @
                   (if \<not> building_for_windows ?sc \<and> \<not> crypto_probe ?e
                    then [''yara/libyara/modules/hash.c''] else []) @
                   (if truthy (enable_magic ?sc) then []
                    else [''yara/libyara/modules/magic.c'']) @
                   (if truthy (enable_cuckoo ?sc) then []
                    else [''yara/libyara/modules/cuckoo.c'']))"
    and src: "sources v = ''yara-python.c'' #
                filter (\<lambda>x. endswith x ''.c'' \<and> x \<notin> set (exclusions v)) (discovered ?e)"
    by blast
  have exc': "exclusions v =
      [''yara/libyara/modules/pe_utils.c'', ''yara/libyara/modules/cuckoo.c'']"
    unfolding exc using c m by (simp add: n)
  have src': "sources v = [''yara-python.c'', ''yara/libyara/rules.c'',
      ''yara/libyara/modules/pe.c'', ''yara/libyara/modules/hash.c'',
      ''yara/libyara/modules/magic.c'']"
    unfolding src exc' dis by (simp add: endswith_def)
  from v lib exc' src' have two: "\<exists>v. run ?e ?sc = Inr v \<and> ''yara'' \<notin> set (libraries v)
         \<and> exclusions v = [''yara/libyara/modules/pe_utils.c'', ''yara/libyara/modules/cuckoo.c'']
         \<and> sources v = [''yara-python.c'', ''yara/libyara/rules.c'', ''yara/libyara/modules/pe.c'',
                        ''yara/libyara/modules/hash.c'', ''yara/libyara/modules/magic.c'']"
    by blast
  from d s f one two three show ?thesis by blast
qed

text \<open>
  C2, as amended. In a run without dynamic linking, the source list holds
  \<^verbatim>\<open>yara-python.c\<close> and exactly those discovered files that end in
  \<^verbatim>\<open>.c\<close> and differ from the normalized paths of \<^verbatim>\<open>pe_utils.c\<close>
  (always excluded), of \<^verbatim>\<open>hash.c\<close> when the build is not for Windows and
  the crypto probe fails, of \<^verbatim>\<open>magic.c\<close> when \<^verbatim>\<open>enable_magic\<close>
  is unset, and of \<^verbatim>\<open>cuckoo.c\<close> when \<^verbatim>\<open>enable_cuckoo\<close> is
  unset.
\<close>

theorem static_sources:
  assumes "\<not> truthy (dynamic_linking self)"
  shows "\<exists>v. run e self = Inr v \<and>
    (\<forall>p. p \<in> set (sources v) \<longleftrightarrow>
       p = ''yara-python.c'' \<or>
       (p \<in> set (discovered e) \<and> endswith p ''.c''
        \<and> p \<noteq> os_path_normpath e ''yara/libyara/modules/pe_utils.c''
        \<and> (\<not> building_for_windows self \<and> \<not> crypto_probe e \<longrightarrow>
              p \<noteq> os_path_normpath e ''yara/libyara/modules/hash.c'')
        \<and> (\<not> truthy (enable_magic self) \<longrightarrow>
              p \<noteq> os_path_normpath e ''yara/libyara/modules/magic.c'')
        \<and> (\<not> truthy (enable_cuckoo self) \<longrightarrow>
              p \<noteq> os_path_normpath e ''yara/libyara/modules/cuckoo.c'')))"
proof -
  from run_static [OF assms] obtain v where v: "run e self = Inr v"
    and src: "sources v = walk_sources e (static_exclusions e self) [''yara-python.c'']"
    by simp
  have "set (sources v) =
      insert ''yara-python.c''
        {p \<in> set (discovered e). endswith p ''.c'' \<and> p \<notin> set (static_exclusions e self)}"
    by (auto simp: src walk_sources_eq)
  then show ?thesis
    using v by (auto simp: static_exclusions_def)
qed

theorem static_sources_witness:
  "\<not> truthy (dynamic_linking (command ''linux-x86_64'' PyNone PyNone (PyInt 1) PyNone))
   \<and> (\<exists>v. run (posix_env (\<lambda>_ _. True)) (command ''linux-x86_64'' PyNone PyNone (PyInt 1) PyNone) = Inr v
        \<and> ''yara/libyara/modules/hash.c'' \<in> set (sources v)
        \<and> ''yara/libyara/modules/cuckoo.c'' \<in> set (sources v)
        \<and> ''yara/libyara/modules/magic.c'' \<notin> set (sources v)
        \<and> ''yara/libyara/modules/pe_utils.c'' \<notin> set (sources v)
        \<and> ''yara/libyara/Makefile.am'' \<notin> set (sources v))"
proof -
  have d: "\<not> truthy (dynamic_linking (command ''linux-x86_64'' PyNone PyNone (PyInt 1) PyNone))"
    by (simp add: command_def)
  have n: "os_path_normpath (posix_env (\<lambda>_ _. True)) ''yara/libyara/modules/pe_utils.c''
             = ''yara/libyara/modules/pe_utils.c''"
      "os_path_normpath (posix_env (\<lambda>_ _. True)) ''yara/libyara/modules/hash.c''
             = ''yara/libyara/modules/hash.c''"
      "os_path_normpath (posix_env (\<lambda>_ _. True)) ''yara/libyara/modules/magic.c''
             = ''yara/libyara/modules/magic.c''"
      "os_path_normpath (posix_env (\<lambda>_ _. True)) ''yara/libyara/modules/cuckoo.c''
             = ''yara/libyara/modules/cuckoo.c''"
    by (simp_all add: posix_env_def posix_normpath_def)
  have dis: "discovered (posix_env (\<lambda>_ _. True)) =
     [''yara/libyara/rules.c'', ''yara/libyara/Makefile.am'',
      ''yara/libyara/modules/pe.c'', ''yara/libyara/modules/pe_utils.c'',
      ''yara/libyara/modules/hash.c'', ''yara/libyara/modules/magic.c'',
      ''yara/libyara/modules/cuckoo.c'']"
    by (simp add: discovered_def posix_env_def example_tree_def posix_join_def
        posix_normpath_def Let_def)
  from static_sources [OF d, of "posix_env (\<lambda>_ _. True)"]
  obtain v where v: "run (posix_env (\<lambda>_ _. True))
        (command ''linux-x86_64'' PyNone PyNone (PyInt 1) PyNone) = Inr v"
    and iff: "\<And>p. p \<in> set (sources v) \<longleftrightarrow>
       p = ''yara-python.c'' \<or>
       (p \<in> set (discovered (posix_env (\<lambda>_ _. True))) \<and> endswith p ''.c''
        \<and> p \<noteq> ''yara/libyara/modules/pe_utils.c''
        \<and> (\<not> building_for_windows (command ''linux-x86_64'' PyNone PyNone (PyInt 1) PyNone)
              \<and> \<not> crypto_probe (posix_env (\<lambda>_ _. True)) \<longrightarrow>
              p \<noteq> ''yara/libyara/modules/hash.c'')
        \<and> (\<not> truthy (enable_magic (command ''linux-x86_64'' PyNone PyNone (PyInt 1) PyNone)) \<longrightarrow>
              p \<noteq> ''yara/libyara/modules/magic.c'')
        \<and> (\<not> truthy (enable_cuckoo (command ''linux-x86_64'' PyNone PyNone (PyInt 1) PyNone)) \<longrightarrow>
              p \<noteq> ''yara/libyara/modules/cuckoo.c''))"
    unfolding n by blast
  have c: "crypto_probe (posix_env (\<lambda>_ _. True))"
    by (simp add: crypto_probe_def has_function_def posix_env_def)
  have "''yara/libyara/modules/hash.c'' \<in> set (sources v)"
    unfolding iff dis using c by (simp add: endswith_def command_def)
  moreover have "''yara/libyara/modules/cuckoo.c'' \<in> set (sources v)"
    unfolding iff dis by (simp add: endswith_def command_def)
  moreover have "''yara/libyara/modules/magic.c'' \<notin> set (sources v)"
    unfolding iff dis by (simp add: endswith_def command_def)
  moreover have "''yara/libyara/modules/pe_utils.c'' \<notin> set (sources v)"
    unfolding iff dis by (simp add: endswith_def command_def)
  moreover have "''yara/libyara/Makefile.am'' \<notin> set (sources v)"
    unfolding iff dis by (simp add: endswith_def command_def)
  ultimately show ?thesis using d v by blast
qed

text \<open>
  With every optional feature enabled the specification's exclusion list is empty, yet the
  discovered file \<^verbatim>\<open>pe_utils.c\<close> is not compiled.
\<close>

theorem spec_exclusions_counterexample:
  "\<not> truthy (dynamic_linking (command ''linux-x86_64'' PyNone (PyInt 1) (PyInt 1) PyNone))
   \<and> ''yara/libyara/modules/pe_utils.c'' \<in> set (discovered (posix_env (\<lambda>_ _. True)))
   \<and> endswith ''yara/libyara/modules/pe_utils.c'' ''.c''
   \<and> ''yara/libyara/modules/pe_utils.c'' \<notin>
        set (spec_exclusions (posix_env (\<lambda>_ _. True))
               (command ''linux-x86_64'' PyNone (PyInt 1) (PyInt 1) PyNone))
   \<and> \<not> isl (run (posix_env (\<lambda>_ _. True))
               (command ''linux-x86_64'' PyNone (PyInt 1) (PyInt 1) PyNone))
   \<and> ''yara/libyara/modules/pe_utils.c'' \<notin>
        set (sources (projr (run (posix_env (\<lambda>_ _. True))
               (command ''linux-x86_64'' PyNone (PyInt 1) (PyInt 1) PyNone))))"
proof -
  have d: "\<not> truthy (dynamic_linking (command ''linux-x86_64'' PyNone (PyInt 1) (PyInt 1) PyNone))"
    by (simp add: command_def)
  have dis: "discovered (posix_env (\<lambda>_ _. True)) =
     [''yara/libyara/rules.c'', ''yara/libyara/Makefile.am'',
      ''yara/libyara/modules/pe.c'', ''yara/libyara/modules/pe_utils.c'',
      ''yara/libyara/modules/hash.c'', ''yara/libyara/modules/magic.c'',
      ''yara/libyara/modules/cuckoo.c'']"
    by (simp add: discovered_def posix_env_def example_tree_def posix_join_def
        posix_normpath_def Let_def)
  have c: "crypto_probe (posix_env (\<lambda>_ _. True))"
    by (simp add: crypto_probe_def has_function_def posix_env_def)
  have sp: "spec_exclusions (posix_env (\<lambda>_ _. True))
               (command ''linux-x86_64'' PyNone (PyInt 1) (PyInt 1) PyNone) = []"
    using c by (simp add: spec_exclusions_def command_def)
  have st: "static_exclusions (posix_env (\<lambda>_ _. True))
               (command ''linux-x86_64'' PyNone (PyInt 1) (PyInt 1) PyNone)
             = [''yara/libyara/modules/pe_utils.c'']"
    using c by (simp add: static_exclusions_def command_def)
       (simp add: posix_env_def posix_normpath_def)
  show ?thesis
    using d by (simp add: run_static [OF d] walk_sources_eq dis sp st endswith_def)
qed

section \<open>The run as a function of its inputs\<close>

text \<open>
  C6, as amended. Two runs with the same platform identifier and option values, the same
  answers to the five capability probes that the script makes and the same path
  normalization, whose walks of \<^verbatim>\<open>yara/libyara/\<close> discover the same files in
  any order, return with the same macros, libraries, directories and exclusions, and with
  source lists that hold the same entries. Each list is the stated function of these
  inputs; the source list is \<^verbatim>\<open>yara-python.c\<close> followed by the engine files in
  the order of the walk, so the two source lists, and the extensions handed to distutils,
  are equal when the walks list the files in the same order.
\<close>

theorem run_deterministic:
  assumes "plat_name (base self1) = plat_name (base self2)"
    and "dynamic_linking self1 = dynamic_linking self2"
    and "enable_magic self1 = enable_magic self2"
    and "enable_cuckoo self1 = enable_cuckoo self2"
    and "enable_profiling self1 = enable_profiling self2"
    and "has_function e1 ''memmem'' None = has_function e2 ''memmem'' None"
    and "has_function e1 ''strlcpy'' None = has_function e2 ''strlcpy'' None"
    and "has_function e1 ''strlcat'' None = has_function e2 ''strlcat'' None"
    and "has_function e1 ''MD5_Init'' (Some [''crypto'']) =
         has_function e2 ''MD5_Init'' (Some [''crypto''])"
    and "has_function e1 ''SHA256_Init'' (Some [''crypto'']) =
         has_function e2 ''SHA256_Init'' (Some [''crypto''])"
    and "os_path_normpath e1 = os_path_normpath e2"
    and "mset (discovered e1) = mset (discovered e2)"
  shows "\<exists>v1 v2. run e1 self1 = Inr v1 \<and> run e2 self2 = Inr v2
       \<and> sources v1 = derived_sources e1 self1 \<and> sources v2 = derived_sources e2 self2
       \<and> macros v1 = derived_macros e1 self1 \<and> libraries v1 = derived_libraries e1 self1
       \<and> exclusions v1 = derived_exclusions e1 self1
       \<and> macros v1 = macros v2 \<and> libraries v1 = libraries v2
       \<and> include_dirs v1 = include_dirs v2 \<and> library_dirs v1 = library_dirs v2
       \<and> compile_args v1 = compile_args v2 \<and> exclusions v1 = exclusions v2
       \<and> mset (sources v1) = mset (sources v2)
       \<and> (discovered e1 = discovered e2 \<longrightarrow> v1 = v2 \<and> ext_modules v1 = ext_modules v2)"
proof -
  have w: "building_for_windows self1 = building_for_windows self2"
    and x: "building_for_osx self1 = building_for_osx self2"
    and b: "bits self1 = bits self2"
    using assms(1) by (simp_all add: building_for_windows_def building_for_osx_def bits_def)
  have c: "crypto_probe e1 = crypto_probe e2"
    using assms(9,10) by (simp add: crypto_probe_def)
  have m: "common_macros e1 self1 = common_macros e2 self2"
    using assms(5-8) w by (simp add: common_macros_def)
  have ex: "static_exclusions e1 self1 = static_exclusions e2 self2"
    using assms(3,4,11) w c by (simp add: static_exclusions_def)
  have fm: "mset (filter P (discovered e1)) = mset (filter P (discovered e2))" for P
    using assms(12) by (simp add: mset_filter)
  show ?thesis
  proof (cases "truthy (dynamic_linking self1)")
    case True
    with assms(2) have True2: "truthy (dynamic_linking self2)" by simp
    show ?thesis
      using True True2
      by (simp add: run_dynamic [OF True] run_dynamic [OF True2] w x m
          derived_sources_def derived_macros_def derived_libraries_def derived_exclusions_def)
  next
    case False
    with assms(2) have False2: "\<not> truthy (dynamic_linking self2)" by simp
    have r1: "run e1 self1 = Inr
       \<lparr>sources = derived_sources e1 self1, exclusions = derived_exclusions e1 self1,
        libraries = derived_libraries e1 self1,
        include_dirs =
            (if building_for_osx self1 then [''/opt/local/include''] else []) @
            [''yara/libyara/include'', ''yara/libyara/'', ''.''] @
            (if building_for_windows self1 then [''yara/windows/include''] else []),
        library_dirs =
            (if building_for_osx self1 then [''/opt/local/lib''] else []) @
            (if building_for_windows self1 then [''yara/windows/lib''] else []),
        compile_args = [], macros = derived_macros e1 self1\<rparr>"
      using False
      by (simp add: run_static [OF False] walk_sources_eq
          derived_sources_def derived_macros_def derived_libraries_def derived_exclusions_def)
    have r2: "run e2 self2 = Inr
       \<lparr>sources = derived_sources e2 self2, exclusions = derived_exclusions e2 self2,
        libraries = derived_libraries e2 self2,
        include_dirs =
            (if building_for_osx self2 then [''/opt/local/include''] else []) @
            [''yara/libyara/include'', ''yara/libyara/'', ''.''] @
            (if building_for_windows self2 then [''yara/windows/include''] else []),
        library_dirs =
            (if building_for_osx self2 then [''/opt/local/lib''] else []) @
            (if building_for_windows self2 then [''yara/windows/lib''] else []),
        compile_args = [], macros = derived_macros e2 self2\<rparr>"
      using False2
      by (simp add: run_static [OF False2] walk_sources_eq
          derived_sources_def derived_macros_def derived_libraries_def derived_exclusions_def)
    have dm: "derived_macros e1 self1 = derived_macros e2 self2"
      using assms(2-4) w c m by (simp add: derived_macros_def)
    have dl: "derived_libraries e1 self1 = derived_libraries e2 self2"
      using assms(2,4) w b c by (simp add: derived_libraries_def)
    have de: "derived_exclusions e1 self1 = derived_exclusions e2 self2"
      using assms(2) ex by (simp add: derived_exclusions_def)
    have ds: "mset (derived_sources e1 self1) = mset (derived_sources e2 self2)"
      using assms(2) ex fm by (simp add: derived_sources_def)
    have dq: "derived_sources e1 self1 = derived_sources e2 self2"
      if "discovered e1 = discovered e2"
      using that assms(2) ex by (simp add: derived_sources_def)
    show ?thesis
      using dq by (simp add: r1 r2 dm dl de ds w x)
  qed
qed

theorem run_deterministic_witness:
  "has_function (posix_env (\<lambda>_ _. True)) ''memmem'' None =
     has_function (reordered_env (\<lambda>_ _. True)) ''memmem'' None
   \<and> has_function (posix_env (\<lambda>_ _. True)) ''strlcpy'' None =
     has_function (reordered_env (\<lambda>_ _. True)) ''strlcpy'' None
   \<and> has_function (posix_env (\<lambda>_ _. True)) ''strlcat'' None =
     has_function (reordered_env (\<lambda>_ _. True)) ''strlcat'' None
   \<and> has_function (posix_env (\<lambda>_ _. True)) ''MD5_Init'' (Some [''crypto'']) =
     has_function (reordered_env (\<lambda>_ _. True)) ''MD5_Init'' (Some [''crypto''])
   \<and> has_function (posix_env (\<lambda>_ _. True)) ''SHA256_Init'' (Some [''crypto'']) =
     has_function (reordered_env (\<lambda>_ _. True)) ''SHA256_Init'' (Some [''crypto''])
   \<and> os_path_normpath (posix_env (\<lambda>_ _. True)) = os_path_normpath (reordered_env (\<lambda>_ _. True))
   \<and> mset (discovered (posix_env (\<lambda>_ _. True))) = mset (discovered (reordered_env (\<lambda>_ _. True)))
   \<and> discovered (posix_env (\<lambda>_ _. True)) \<noteq> discovered (reordered_env (\<lambda>_ _. True))
   \<and> (\<exists>v1 v2.
        run (posix_env (\<lambda>_ _. True)) (command ''linux-x86_64'' PyNone PyNone (PyInt 1) PyNone) = Inr v1
      \<and> run (reordered_env (\<lambda>_ _. True)) (command ''linux-x86_64'' PyNone PyNone (PyInt 1) PyNone) = Inr v2
      \<and> sources v1 = [''yara-python.c'', ''yara/libyara/rules.c'', ''yara/libyara/modules/pe.c'',
                       ''yara/libyara/modules/hash.c'', ''yara/libyara/modules/cuckoo.c'']
      \<and> sources v2 = [''yara-python.c'', ''yara/libyara/rules.c'', ''yara/libyara/modules/cuckoo.c'',
                       ''yara/libyara/modules/hash.c'', ''yara/libyara/modules/pe.c'']
      \<and> macros v1 = [(''HAVE_MEMMEM'', ''1''), (''HAVE_STRLCPY'', ''1''), (''HAVE_STRLCAT'', ''1''),
                      (''HASH'', ''1''), (''CUCKOO'', ''1'')]
      \<and> libraries v1 = [''crypto'', ''jansson'']
      \<and> macros v1 = macros v2 \<and> libraries v1 = libraries v2
      \<and> mset (sources v1) = mset (sources v2))"
proof -
  let ?e1 = "posix_env (\<lambda>_ _. True)"
  let ?e2 = "reordered_env (\<lambda>_ _. True)"
  let ?c = "command ''linux-x86_64'' PyNone PyNone (PyInt 1) PyNone"
  have d1: "discovered ?e1 =
     [''yara/libyara/rules.c'', ''yara/libyara/Makefile.am'',
      ''yara/libyara/modules/pe.c'', ''yara/libyara/modules/pe_utils.c'',
      ''yara/libyara/modules/hash.c'', ''yara/libyara/modules/magic.c'',
      ''yara/libyara/modules/cuckoo.c'']"
    by (simp add: discovered_def posix_env_def example_tree_def posix_join_def
        posix_normpath_def Let_def)
  have d2: "discovered ?e2 =
     [''yara/libyara/Makefile.am'', ''yara/libyara/rules.c'',
      ''yara/libyara/modules/cuckoo.c'', ''yara/libyara/modules/hash.c'',
      ''yara/libyara/modules/magic.c'', ''yara/libyara/modules/pe.c'',
      ''yara/libyara/modules/pe_utils.c'']"
    by (simp add: discovered_def reordered_env_def reordered_tree_def posix_join_def
        posix_normpath_def Let_def)
  have ms: "mset (discovered ?e1) = mset (discovered ?e2)"
    unfolding d1 d2 by (simp add: ac_simps)
  have ne: "discovered ?e1 \<noteq> discovered ?e2"
    unfolding d1 d2 by simp
  have np: "os_path_normpath ?e1 = os_path_normpath ?e2"
    by (simp add: posix_env_def reordered_env_def)
  have hf: "has_function ?e1 name libs = has_function ?e2 name libs" for name libs
    by (simp add: has_function_def posix_env_def reordered_env_def)
  have sx: "static_exclusions ?e1 ?c =
      [''yara/libyara/modules/pe_utils.c'', ''yara/libyara/modules/magic.c'']"
    by (simp add: static_exclusions_def building_for_windows_def crypto_probe_def
        has_function_def command_def)
       (simp add: posix_env_def posix_normpath_def)
  have sx2: "static_exclusions ?e2 ?c =
      [''yara/libyara/modules/pe_utils.c'', ''yara/libyara/modules/magic.c'']"
    by (simp add: static_exclusions_def building_for_windows_def crypto_probe_def
        has_function_def command_def)
       (simp add: reordered_env_def posix_normpath_def)
  have s1: "derived_sources ?e1 ?c =
      [''yara-python.c'', ''yara/libyara/rules.c'', ''yara/libyara/modules/pe.c'',
       ''yara/libyara/modules/hash.c'', ''yara/libyara/modules/cuckoo.c'']"
    unfolding derived_sources_def sx d1 by (simp add: command_def endswith_def)
  have s2: "derived_sources ?e2 ?c =
      [''yara-python.c'', ''yara/libyara/rules.c'', ''yara/libyara/modules/cuckoo.c'',
       ''yara/libyara/modules/hash.c'', ''yara/libyara/modules/pe.c'']"
    unfolding derived_sources_def sx2 d2 by (simp add: command_def endswith_def)
  have m1: "derived_macros ?e1 ?c =
      [(''HAVE_MEMMEM'', ''1''), (''HAVE_STRLCPY'', ''1''), (''HAVE_STRLCAT'', ''1''),
       (''HASH'', ''1''), (''CUCKOO'', ''1'')]"
    by (simp add: derived_macros_def common_macros_def building_for_windows_def
        crypto_probe_def has_function_def command_def posix_env_def)
  have l1: "derived_libraries ?e1 ?c = [''crypto'', ''jansson'']"
    by (simp add: derived_libraries_def building_for_windows_def
        crypto_probe_def has_function_def command_def posix_env_def)
  from run_deterministic [of ?c ?c ?e1 ?e2, OF refl refl refl refl refl hf hf hf hf hf np ms]
  obtain v1 v2 where "run ?e1 ?c = Inr v1" "run ?e2 ?c = Inr v2"
    "sources v1 = derived_sources ?e1 ?c" "sources v2 = derived_sources ?e2 ?c"
    "macros v1 = derived_macros ?e1 ?c" "libraries v1 = derived_libraries ?e1 ?c"
    "macros v1 = macros v2" "libraries v1 = libraries v2"
    "mset (sources v1) = mset (sources v2)"
    by blast
  then have "\<exists>v1 v2. run ?e1 ?c = Inr v1 \<and> run ?e2 ?c = Inr v2
      \<and> sources v1 = [''yara-python.c'', ''yara/libyara/rules.c'', ''yara/libyara/modules/pe.c'',
                       ''yara/libyara/modules/hash.c'', ''yara/libyara/modules/cuckoo.c'']
      \<and> sources v2 = [''yara-python.c'', ''yara/libyara/rules.c'', ''yara/libyara/modules/cuckoo.c'',
                       ''yara/libyara/modules/hash.c'', ''yara/libyara/modules/pe.c'']
      \<and> macros v1 = [(''HAVE_MEMMEM'', ''1''), (''HAVE_STRLCPY'', ''1''), (''HAVE_STRLCAT'', ''1''),
                      (''HASH'', ''1''), (''CUCKOO'', ''1'')]
      \<and> libraries v1 = [''crypto'', ''jansson'']
      \<and> macros v1 = macros v2 \<and> libraries v1 = libraries v2
      \<and> mset (sources v1) = mset (sources v2)"
    using s1 s2 m1 l1 by metis
  with hf np ms ne show ?thesis by blast
qed

text \<open>
  The two environments hold the same files in the same directories and answer every probe
  alike; one lists \<^verbatim>\<open>pe.c\<close> before \<^verbatim>\<open>cuckoo.c\<close>, the other after, and the
  two source lists differ.
\<close>

theorem walk_order_counterexample:
  "set (snd (snd (example_tree ! 0))) = set (snd (snd (reordered_tree ! 0)))
   \<and> set (snd (snd (example_tree ! 1))) = set (snd (snd (reordered_tree ! 1)))
   \<and> map fst example_tree = map fst reordered_tree
   \<and> mset (discovered (posix_env (\<lambda>_ _. True))) = mset (discovered (reordered_env (\<lambda>_ _. True)))
   \<and> compiler_has_function (posix_env (\<lambda>_ _. True)) = compiler_has_function (reordered_env (\<lambda>_ _. True))
   \<and> \<not> isl (run (posix_env (\<lambda>_ _. True)) (command ''linux-x86_64'' PyNone PyNone (PyInt 1) PyNone))
   \<and> \<not> isl (run (reordered_env (\<lambda>_ _. True)) (command ''linux-x86_64'' PyNone PyNone (PyInt 1) PyNone))
   \<and> sources (projr (run (posix_env (\<lambda>_ _. True))
                 (command ''linux-x86_64'' PyNone PyNone (PyInt 1) PyNone)))
      = [''yara-python.c'', ''yara/libyara/rules.c'', ''yara/libyara/modules/pe.c'',
         ''yara/libyara/modules/hash.c'', ''yara/libyara/modules/cuckoo.c'']
   \<and> sources (projr (run (reordered_env (\<lambda>_ _. True))
                 (command ''linux-x86_64'' PyNone PyNone (PyInt 1) PyNone)))
      = [''yara-python.c'', ''yara/libyara/rules.c'', ''yara/libyara/modules/cuckoo.c'',
         ''yara/libyara/modules/hash.c'', ''yara/libyara/modules/pe.c'']
   \<and> sources (projr (run (posix_env (\<lambda>_ _. True))
                 (command ''linux-x86_64'' PyNone PyNone (PyInt 1) PyNone)))
      \<noteq> sources (projr (run (reordered_env (\<lambda>_ _. True))
                 (command ''linux-x86_64'' PyNone PyNone (PyInt 1) PyNone)))"
proof -
  let ?e1 = "posix_env (\<lambda>_ _. True)"
  let ?e2 = "reordered_env (\<lambda>_ _. True)"
  let ?c = "command ''linux-x86_64'' PyNone PyNone (PyInt 1) PyNone"
  have d: "\<not> truthy (dynamic_linking ?c)" by (simp add: command_def)
  have d1: "discovered ?e1 =
     [''yara/libyara/rules.c'', ''yara/libyara/Makefile.am'',
      ''yara/libyara/modules/pe.c'', ''yara/libyara/modules/pe_utils.c'',
      ''yara/libyara/modules/hash.c'', ''yara/libyara/modules/magic.c'',
      ''yara/libyara/modules/cuckoo.c'']"
    by (simp add: discovered_def posix_env_def example_tree_def posix_join_def
        posix_normpath_def Let_def)
  have d2: "discovered ?e2 =
     [''yara/libyara/Makefile.am'', ''yara/libyara/rules.c'',
      ''yara/libyara/modules/cuckoo.c'', ''yara/libyara/modules/hash.c'',
      ''yara/libyara/modules/magic.c'', ''yara/libyara/modules/pe.c'',
      ''yara/libyara/modules/pe_utils.c'']"
    by (simp add: discovered_def reordered_env_def reordered_tree_def posix_join_def
        posix_normpath_def Let_def)
  have ms: "mset (discovered ?e1) = mset (discovered ?e2)"
    unfolding d1 d2 by (simp add: ac_simps)
  have trees: "set (snd (snd (example_tree ! 0))) = set (snd (snd (reordered_tree ! 0)))"
    "set (snd (snd (example_tree ! 1))) = set (snd (snd (reordered_tree ! 1)))"
    "map fst example_tree = map fst reordered_tree"
    by (auto simp: example_tree_def reordered_tree_def)
  have pr: "compiler_has_function ?e1 = compiler_has_function ?e2"
    by (simp add: posix_env_def reordered_env_def)
  have sx: "static_exclusions ?e1 ?c =
      [''yara/libyara/modules/pe_utils.c'', ''yara/libyara/modules/magic.c'']"
    by (simp add: static_exclusions_def building_for_windows_def crypto_probe_def
        has_function_def command_def)
       (simp add: posix_env_def posix_normpath_def)
  have sx2: "static_exclusions ?e2 ?c =
      [''yara/libyara/modules/pe_utils.c'', ''yara/libyara/modules/magic.c'']"
    by (simp add: static_exclusions_def building_for_windows_def crypto_probe_def
        has_function_def command_def)
       (simp add: reordered_env_def posix_normpath_def)
  have r1: "\<not> isl (run ?e1 ?c)" and r2: "\<not> isl (run ?e2 ?c)"
    by (simp_all add: run_static [OF d])
  have s1: "sources (projr (run ?e1 ?c)) =
      [''yara-python.c'', ''yara/libyara/rules.c'', ''yara/libyara/modules/pe.c'',
       ''yara/libyara/modules/hash.c'', ''yara/libyara/modules/cuckoo.c'']"
    by (simp add: run_static [OF d] walk_sources_eq sx d1 endswith_def)
  have s2: "sources (projr (run ?e2 ?c)) =
      [''yara-python.c'', ''yara/libyara/rules.c'', ''yara/libyara/modules/cuckoo.c'',
       ''yara/libyara/modules/hash.c'', ''yara/libyara/modules/pe.c'']"
    by (simp add: run_static [OF d] walk_sources_eq sx2 d2 endswith_def)
  have "sources (projr (run ?e1 ?c)) \<noteq> sources (projr (run ?e2 ?c))"
    unfolding s1 s2 by simp
  with trees ms pr r1 r2 s1 s2 show ?thesis by blast
qed

section \<open>Stream redirection\<close>

lemma lowest_unused_ge: "n \<le> lowest_unused n used"
proof (induction n used rule: lowest_unused.induct)
  case (1 n used)
  show ?case
  proof (cases "n \<in> set used")
    case True
    with "1.IH" have "Suc n \<le> lowest_unused (Suc n) (removeAll n used)" by simp
    with True show ?thesis by (subst lowest_unused.simps) simp
  next
    case False
    then show ?thesis by (subst lowest_unused.simps) simp
  qed
qed

lemma lowest_unused_fresh: "lowest_unused n used \<notin> set used"
proof (induction n used rule: lowest_unused.induct)
  case (1 n used)
  show ?case
  proof (cases "n \<in> set used")
    case True
    with "1.IH" have "lowest_unused (Suc n) (removeAll n used) \<notin> set (removeAll n used)"
      by simp
    moreover have "lowest_unused (Suc n) (removeAll n used) \<noteq> n"
      using lowest_unused_ge [of "Suc n" "removeAll n used"] by simp
    ultimately have "lowest_unused (Suc n) (removeAll n used) \<notin> set used" by simp
    with True show ?thesis by (subst lowest_unused.simps) simp
  next
    case False
    then show ?thesis by (subst lowest_unused.simps) simp
  qed
qed

lemma lowest_unused_closed: "map_of t (lowest_unused 0 (map fst t)) = None"
  using lowest_unused_fresh [of 0 "map fst t"] by (simp add: map_of_eq_None_iff)

lemma os_open_devnull_eq:
  "\<exists>n t'. os_open_devnull t = (n, t') \<and> map_of t n = None
     \<and> map_of t' = (map_of t)(n \<mapsto> DevNull)"
  by (simp add: os_open_devnull_def Let_def lowest_unused_closed update_conv')

lemma os_dup_eq:
  assumes "map_of t f = Some d"
  shows "\<exists>n t'. os_dup f t = (Inr n, t') \<and> map_of t n = None
     \<and> map_of t' = (map_of t)(n \<mapsto> d)"
  using assms by (simp add: os_dup_def Let_def lowest_unused_closed update_conv')

lemma os_dup2_eq:
  assumes "map_of t f = Some d"
  shows "\<exists>t'. os_dup2 f f2 t = (Inr (), t') \<and> map_of t' = (map_of t)(f2 \<mapsto> d)"
  using assms by (simp add: os_dup2_def update_conv')

lemma os_close_eq:
  assumes "map_of t f = Some d"
  shows "\<exists>t'. os_close f t = (Inr (), t') \<and> map_of t' = (map_of t)(f := None)"
  using assms by (simp add: os_close_def delete_conv')

lemma dup_streams_ok:
  assumes "\<forall>s \<in> set ss. map_of t s \<noteq> None"
  shows "\<exists>olds t'. dup_streams ss t = (Inr olds, t')
           \<and> list_all2 (\<lambda>old s. map_of t' old = map_of t s) olds ss
           \<and> (\<forall>f. map_of t f \<noteq> None \<longrightarrow> map_of t' f = map_of t f)
           \<and> (\<forall>old \<in> set olds. map_of t old = None)"
  using assms
proof (induction ss arbitrary: t)
  case Nil
  then show ?case by simp
next
  case (Cons s ss)
  from Cons.prems obtain d where d: "map_of t s = Some d" by auto
  from os_dup_eq [OF d] obtain n t1 where
    dup: "os_dup s t = (Inr n, t1)" and n: "map_of t n = None"
    and t1: "map_of t1 = (map_of t)(n \<mapsto> d)" by blast
  have keep1: "map_of t1 f = map_of t f" if "map_of t f \<noteq> None" for f
    using that n by (auto simp: t1)
  have "\<forall>s \<in> set ss. map_of t1 s \<noteq> None"
    using Cons.prems keep1 by simp
  from Cons.IH [OF this] obtain olds t2 where
    rec: "dup_streams ss t1 = (Inr olds, t2)"
    and all2: "list_all2 (\<lambda>old s. map_of t2 old = map_of t1 s) olds ss"
    and keep2: "\<forall>f. map_of t1 f \<noteq> None \<longrightarrow> map_of t2 f = map_of t1 f"
    and fresh: "\<forall>old \<in> set olds. map_of t1 old = None" by blast
  have res: "dup_streams (s # ss) t = (Inr (n # olds), t2)"
    by (simp add: dup rec)
  have "map_of t2 n = map_of t s"
    using keep2 by (simp add: t1 d)
  moreover have "list_all2 (\<lambda>old s. map_of t2 old = map_of t s) olds ss"
  proof (rule list.rel_mono_strong [OF all2])
    fix old s' assume "old \<in> set olds" "s' \<in> set ss" "map_of t2 old = map_of t1 s'"
    with Cons.prems keep1 show "map_of t2 old = map_of t s'" by simp
  qed
  moreover have "\<forall>f. map_of t f \<noteq> None \<longrightarrow> map_of t2 f = map_of t f"
    using keep1 keep2 by simp
  moreover have "\<forall>old \<in> set (n # olds). map_of t old = None"
    using fresh n by (auto simp: t1 split: if_splits)
  ultimately show ?case using res by simp
qed

lemma redirect_streams_ok:
  assumes "map_of t devnull = Some d"
  shows "\<exists>t'. redirect_streams devnull ss t = (Inr (), t')
           \<and> (\<forall>f. map_of t' f = (if f \<in> set ss then Some d else map_of t f))"
  using assms
proof (induction ss arbitrary: t)
  case Nil
  then show ?case by simp
next
  case (Cons s ss)
  from os_dup2_eq [OF Cons.prems, of s] obtain t1 where
    d2: "os_dup2 devnull s t = (Inr (), t1)" and t1: "map_of t1 = (map_of t)(s \<mapsto> d)"
    by blast
  have "map_of t1 devnull = Some d" using Cons.prems by (simp add: t1)
  from Cons.IH [OF this] obtain t2 where
    rec: "redirect_streams devnull ss t1 = (Inr (), t2)"
    and m: "\<forall>f. map_of t2 f = (if f \<in> set ss then Some d else map_of t1 f)" by blast
  show ?case using rec m by (simp add: d2 t1)
qed

lemma restore_pairs_ok:
  assumes "\<forall>(old, s) \<in> set ps. map_of t old = g s \<and> g s \<noteq> None"
    and "fst ` set ps \<inter> snd ` set ps = {}"
  shows "\<exists>t'. restore_streams ps t = (Inr (), t')
           \<and> (\<forall>f. map_of t' f = (if f \<in> snd ` set ps then g f else map_of t f))"
  using assms
proof (induction ps arbitrary: t)
  case Nil
  then show ?case by simp
next
  case (Cons p ps)
  obtain old s where p: "p = (old, s)" by (cases p)
  from Cons.prems(1) p obtain d where d: "g s = Some d" and o: "map_of t old = Some d"
    by auto
  from os_dup2_eq [OF o, of s] obtain t1 where
    d2: "os_dup2 old s t = (Inr (), t1)" and t1: "map_of t1 = (map_of t)(s \<mapsto> d)"
    by blast
  have "\<forall>(old', s') \<in> set ps. map_of t1 old' = g s' \<and> g s' \<noteq> None"
  proof (clarify, rule conjI)
    fix old' s' assume in_ps: "(old', s') \<in> set ps"
    with Cons.prems(1) have a: "map_of t old' = g s'" and b: "g s' \<noteq> None" by auto
    from in_ps Cons.prems(2) p have "old' \<noteq> s" by force
    with a show "map_of t1 old' = g s'" by (simp add: t1)
    from b show "g s' \<noteq> None" .
  qed
  moreover have "fst ` set ps \<inter> snd ` set ps = {}" using Cons.prems(2) by auto
  ultimately obtain t2 where
    rec: "restore_streams ps t1 = (Inr (), t2)"
    and m: "\<forall>f. map_of t2 f = (if f \<in> snd ` set ps then g f else map_of t1 f)"
    using Cons.IH by blast
  show ?case using rec m d by (simp add: p d2 t1)
qed

lemma restore_streams_ok:
  assumes "list_all2 (\<lambda>old s. map_of t old = g s) olds ss"
    and "\<forall>s \<in> set ss. g s \<noteq> None"
    and "set olds \<inter> set ss = {}"
  shows "\<exists>t'. restore_streams (zip olds ss) t = (Inr (), t')
           \<and> (\<forall>f. map_of t' f = (if f \<in> set ss then g f else map_of t f))"
proof -
  from assms(1) have len: "length olds = length ss" by (rule list_all2_lengthD)
  have a: "\<forall>(old, s) \<in> set (zip olds ss). map_of t old = g s \<and> g s \<noteq> None"
    using assms(1,2) by (auto simp: list_all2_iff dest: set_zip_rightD)
  have b: "fst ` set (zip olds ss) \<inter> snd ` set (zip olds ss) = {}"
  proof -
    have "fst ` set (zip olds ss) \<subseteq> set olds" by (auto dest: set_zip_leftD)
    moreover have "snd ` set (zip olds ss) \<subseteq> set ss" by (auto dest: set_zip_rightD)
    ultimately show ?thesis using assms(3) by blast
  qed
  have c: "snd ` set (zip olds ss) = set ss"
    using len by (metis map_snd_zip set_map)
  from restore_pairs_ok [OF a b] show ?thesis by (simp add: c)
qed

text \<open>
  When every stream's descriptor is open and the block leaves alone the open descriptors
  that are not among the streams, \<^verbatim>\<open>muted\<close> ends with every stream on its
  original file and with the null device closed, whether the block raises or not; the
  block runs with every stream on the null device, and its exception is the one that
  propagates.
\<close>

theorem muted_restores:
  assumes opened: "\<forall>s \<in> set streams. map_of t s \<noteq> None"
    and frame: "\<forall>t' f. map_of t' f \<noteq> None \<longrightarrow> f \<notin> set streams \<longrightarrow>
                  map_of (snd (body t')) f = map_of t' f"
  shows "(\<forall>s \<in> set streams. map_of (snd (muted streams body t)) s = map_of t s)
       \<and> map_of (snd (muted streams body t)) (fst (os_open_devnull t)) = None
       \<and> (\<exists>t'. fst (muted streams body t) = fst (body t')
               \<and> (\<forall>s \<in> set streams. map_of t' s = Some DevNull))"
proof -
  from os_open_devnull_eq [of t] obtain dn ta where
    op: "os_open_devnull t = (dn, ta)" and dn_new: "map_of t dn = None"
    and ta: "map_of ta = (map_of t)(dn \<mapsto> DevNull)" by blast
  have dn_notin: "dn \<notin> set streams" using opened dn_new by auto
  have "\<forall>s \<in> set streams. map_of ta s \<noteq> None" using opened by (simp add: ta)
  from dup_streams_ok [OF this] obtain olds tb where
    du: "dup_streams streams ta = (Inr olds, tb)"
    and all2: "list_all2 (\<lambda>old s. map_of tb old = map_of ta s) olds streams"
    and keep: "\<forall>f. map_of ta f \<noteq> None \<longrightarrow> map_of tb f = map_of ta f"
    and olds_new: "\<forall>old \<in> set olds. map_of ta old = None" by blast
  have disj: "set olds \<inter> set streams = {}"
    using olds_new \<open>\<forall>s \<in> set streams. map_of ta s \<noteq> None\<close> by auto
  have dn_olds: "dn \<notin> set olds" using olds_new by (auto simp: ta)
  have tb_dn: "map_of tb dn = Some DevNull" using keep by (simp add: ta)
  from redirect_streams_ok [OF tb_dn] obtain tc where
    re: "redirect_streams dn streams tb = (Inr (), tc)"
    and tc: "\<forall>f. map_of tc f = (if f \<in> set streams then Some DevNull else map_of tb f)"
    by blast
  obtain exc td where bd: "body tc = (exc, td)" by (cases "body tc")
  have td_keep: "map_of td f = map_of tb f" if "map_of tb f \<noteq> None" "f \<notin> set streams" for f
  proof -
    from that tc have "map_of tc f \<noteq> None" by simp
    with frame that(2) have "map_of (snd (body tc)) f = map_of tc f" by blast
    with that(2) tc show ?thesis by (simp add: bd)
  qed
  have all2_b: "list_all2 (\<lambda>old s. map_of tb old = map_of t s) olds streams"
  proof (rule list.rel_mono_strong [OF all2])
    fix old s assume "s \<in> set streams" "map_of tb old = map_of ta s"
    with dn_notin show "map_of tb old = map_of t s" by (auto simp: ta)
  qed
  have all2_d: "list_all2 (\<lambda>old s. map_of td old = map_of t s) olds streams"
  proof (rule list.rel_mono_strong [OF all2_b])
    fix old s assume o: "old \<in> set olds" and s: "s \<in> set streams"
      and e: "map_of tb old = map_of t s"
    from s opened e have "map_of tb old \<noteq> None" by simp
    moreover from o disj have "old \<notin> set streams" by auto
    ultimately show "map_of td old = map_of t s" using e td_keep by simp
  qed
  from restore_streams_ok [OF all2_d opened disj] obtain te where
    rs: "restore_streams (zip olds streams) td = (Inr (), te)"
    and te: "\<forall>f. map_of te f = (if f \<in> set streams then map_of t f else map_of td f)"
    by blast
  have "map_of te dn = Some DevNull"
    using te dn_notin td_keep [of dn] tb_dn by simp
  from os_close_eq [OF this] obtain tf where
    cl: "os_close dn te = (Inr (), tf)" and tf: "map_of tf = (map_of te)(dn := None)"
    by blast
  have res: "muted streams body t = (exc, tf)"
    by (simp add: muted_def muted_finally_def op du re bd rs cl)
  have "\<forall>s \<in> set streams. map_of tf s = map_of t s"
    using te dn_notin by (auto simp: tf)
  moreover have "map_of tf dn = None" by (simp add: tf)
  moreover have "fst (muted streams body t) = fst (body tc)
      \<and> (\<forall>s \<in> set streams. map_of tc s = Some DevNull)"
    using tc by (simp add: res bd)
  ultimately show ?thesis by (auto simp: res op)
qed

theorem muted_restores_witness:
  "map_of [(0, File 0), (1, File 1), (2, File 2)] 1 \<noteq> None
   \<and> map_of [(0, File 0), (1, File 1), (2, File 2)] 2 \<noteq> None
   \<and> muted [1, 2] (\<lambda>t. (Some ValueError, t)) [(0, File 0), (1, File 1), (2, File 2)]
       = (Some ValueError, [(0, File 0), (1, File 1), (2, File 2), (4, File 1), (5, File 2)])
   \<and> map_of (snd (muted [1, 2] (\<lambda>t. (Some ValueError, t))
                [(0, File 0), (1, File 1), (2, File 2)])) 1 = Some (File 1)
   \<and> map_of (snd (muted [1, 2] (\<lambda>t. (Some ValueError, t))
                [(0, File 0), (1, File 1), (2, File 2)])) 2 = Some (File 2)
   \<and> map_of (snd (muted [1, 2] (\<lambda>t. (Some ValueError, t))
                [(0, File 0), (1, File 1), (2, File 2)])) 3 = None"
proof -
  have o: "\<forall>s \<in> set [1, 2]. map_of [(0, File 0), (1, File 1), (2, File 2)] s \<noteq> None"
    by simp
  have f: "\<forall>t' f. map_of t' f \<noteq> None \<longrightarrow> f \<notin> set [1, 2::nat] \<longrightarrow>
             map_of (snd ((\<lambda>t. (Some ValueError, t)) t')) f = map_of (t' :: fdtable) f"
    by simp
  have dn: "fst (os_open_devnull [(0, File 0), (1, File 1), (2, File 2)]) = 3"
    by (simp add: os_open_devnull_def Let_def lowest_unused.simps)
  have m: "muted [1, 2] (\<lambda>t. (Some ValueError, t)) [(0, File 0), (1, File 1), (2, File 2)]
       = (Some ValueError, [(0, File 0), (1, File 1), (2, File 2), (4, File 1), (5, File 2)])"
    by (simp add: muted_def muted_finally_def os_open_devnull_def os_dup_def os_dup2_def
        os_close_def Let_def lowest_unused.simps AList.delete_eq)
  from muted_restores [of "[1, 2]" "[(0, File 0), (1, File 1), (2, File 2)]"
      "\<lambda>t. (Some ValueError, t)", OF o f]
  show ?thesis unfolding dn using m by simp
qed

text \<open>
  C7, at the failing input. Over a stream whose descriptor, 5, is not open, in a process
  with descriptors 0, 1 and 2 open, \<^verbatim>\<open>os.dup\<close> raises inside the
  \<^verbatim>\<open>try\<close> before \<^verbatim>\<open>old_streams\<close> is bound; the
  \<^verbatim>\<open>finally\<close> clause then raises \<^verbatim>\<open>NameError\<close> and never
  reaches \<^verbatim>\<open>devnull.close()\<close>: the call ends with descriptor 3 still open
  on the null device, whatever the block is.
\<close>

theorem muted_unopened_stream:
  "muted [5] body [(0, File 0), (1, File 1), (2, File 2)] =
     (Some NameError, [(0, File 0), (1, File 1), (2, File 2), (3, DevNull)])"
  by (simp add: muted_def muted_finally_def os_open_devnull_def os_dup_def Let_def
      lowest_unused.simps)

end
